theory Spec2Isabelle
  imports Main
begin

unbundle bit_operations_syntax

section \<open>Text primitives of the Python runtime\<close>

text \<open>
  Python text (\<open>str\<close> and \<open>unicode\<close>) is modelled as \<open>string\<close>, a list of characters.
  \<open>py_replace old new s\<close> is \<open>s.replace(old, new)\<close>: the occurrences of \<open>old\<close> are
  replaced from left to right and do not overlap; an empty \<open>old\<close> matches before every
  character and at the end.
\<close>

function replace_ne :: "string \<Rightarrow> string \<Rightarrow> string \<Rightarrow> string" where
  "replace_ne old new [] = []"
| "replace_ne old new (c # cs) =
     (if old \<noteq> [] \<and> take (length old) (c # cs) = old
      then new @ replace_ne old new (drop (length old) (c # cs))
      else c # replace_ne old new cs)"
  by pat_completeness auto
termination
  by (relation "measure (\<lambda>(old, new, s). length s)") auto

definition py_replace :: "string \<Rightarrow> string \<Rightarrow> string \<Rightarrow> string" where
  "py_replace old new s =
     (if old = [] then new @ concat (map (\<lambda>c. c # new) s) else replace_ne old new s)"

text \<open>\<open>py_join sep xs\<close> is \<open>sep.join(xs)\<close> on a list of texts.\<close>

fun py_join :: "string \<Rightarrow> string list \<Rightarrow> string" where
  "py_join sep [] = []"
| "py_join sep [x] = x"
| "py_join sep (x # y # ys) = x @ sep @ py_join sep (y # ys)"

section \<open>Unescaping the special characters of a DN\<close>

text \<open>
  The characters the source iterates over in \<open>unescapecn\<close>, in the order of its string
  literal: space, double quote, \<open>#\<close>, \<open>+\<close>, comma, \<open>;\<close>, \<open><\<close>, \<open>=\<close>, \<open>>\<close>, backslash, NUL.
\<close>

definition backslash :: char where
  "backslash = CHR 0x5C"

definition dn_special :: string where
  "dn_special = [CHR '' '', CHR 0x22, CHR ''#'', CHR ''+'', CHR '','', CHR '';'', CHR ''<'',
                 CHR ''='', CHR ''>'', CHR 0x5C, CHR 0x00]"

text \<open>
  \<open>domainDumper.unescapecn\<close> and \<open>reportWriter.unescapecn\<close> have the same body: for each
  special character in turn, every backslash followed by that character is replaced by
  the character alone.
\<close>

definition unescapecn :: "string \<Rightarrow> string" where
  "unescapecn cn = foldl (\<lambda>cn c. py_replace [backslash, c] [c] cn) cn dn_special"

definition rw_unescapecn :: "string \<Rightarrow> string" where
  "rw_unescapecn cn = foldl (\<lambda>cn c. py_replace [backslash, c] [c] cn) cn dn_special"

text \<open>
  Modelled from the spec: the escaping that \<open>unescapecn\<close> reverses is not part of the
  source (the directory server produces the escaped names). Following the spec's data
  model, a DN component is escaped by putting a backslash before each character of the
  special set. \<open>escape_set S\<close> escapes the characters of \<open>S\<close> only.
\<close>

definition escape_set :: "char set \<Rightarrow> string \<Rightarrow> string" where
  "escape_set S s = concat (map (\<lambda>c. if c \<in> S then [backslash, c] else [c]) s)"

definition escape :: "string \<Rightarrow> string" where
  "escape s = escape_set (set dn_special) s"


section \<open>Values, attributes and entries\<close>

text \<open>
  The exceptions that the modelled code can raise. A function that can raise returns
  \<open>error + 'a\<close>, with \<open>Inl\<close> for the exception.
\<close>

datatype error =
  LDAPKeyError | LDAPAttributeError | LDAPInvalidDnError
  | KeyError | ValueError | TypeError | AttributeError | IndexError

datatype datetime = Datetime nat nat nat nat nat nat

text \<open>
  The Python values an attribute can hold: text of type \<open>unicode\<close> or \<open>str\<close>, an integer
  of type \<open>int\<close> or \<open>long\<close>, a \<open>datetime\<close>, or a list of values.
\<close>

datatype pyval =
  PUnicode string | PStr string | PInt int | PLong int | PDatetime datetime
  | PList "pyval list"

text \<open>
  An attribute object of the directory library, as the source uses it: its name \<open>key\<close>,
  and the two accessors \<open>value\<close> and \<open>values\<close>. The source reads them independently, so
  they are independent fields here.
\<close>

record attribute =
  att_key :: string
  att_value :: pyval
  att_values :: pyval

record entry =
  entry_dn :: string
  entry_attributes :: "(string \<times> attribute) list"

definition lower_char :: "char \<Rightarrow> char" where
  "lower_char c =
     (case map_of (zip ''ABCDEFGHIJKLMNOPQRSTUVWXYZ'' ''abcdefghijklmnopqrstuvwxyz'') c of
        Some l \<Rightarrow> l | None \<Rightarrow> c)"

definition lower :: "string \<Rightarrow> string" where
  "lower s = map lower_char s"

text \<open>
  Looking an attribute up in an entry ignores the case of the name, as the directory
  library does (the source reads \<open>primaryGroupId\<close> where the directory stores
  \<open>primaryGroupID\<close>). \<open>entry.name\<close> raises \<open>LDAPAttributeError\<close> when the attribute is
  absent, \<open>entry[name]\<close> raises \<open>LDAPKeyError\<close>; these are the two exceptions the source
  catches around the two forms.
\<close>

definition entry_find :: "entry \<Rightarrow> string \<Rightarrow> attribute option" where
  "entry_find e name =
     map_option snd (find (\<lambda>(k, a). lower k = lower name) (entry_attributes e))"

definition entry_getattr :: "entry \<Rightarrow> string \<Rightarrow> error + attribute" where
  "entry_getattr e name =
     (case entry_find e name of None \<Rightarrow> Inl LDAPAttributeError | Some a \<Rightarrow> Inr a)"

definition entry_getitem :: "entry \<Rightarrow> string \<Rightarrow> error + attribute" where
  "entry_getitem e name =
     (case entry_find e name of None \<Rightarrow> Inl LDAPKeyError | Some a \<Rightarrow> Inr a)"

text \<open>Sequencing of computations that can raise.\<close>

definition ebind :: "error + 'a \<Rightarrow> ('a \<Rightarrow> error + 'b) \<Rightarrow> error + 'b" where
  "ebind m f = (case m of Inl e \<Rightarrow> Inl e | Inr x \<Rightarrow> f x)"

text \<open>Primitive operations of Python on values.\<close>

definition py_text :: "pyval \<Rightarrow> string option" where
  "py_text v = (case v of PUnicode s \<Rightarrow> Some s | PStr s \<Rightarrow> Some s | _ \<Rightarrow> None)"

definition py_integer :: "pyval \<Rightarrow> int option" where
  "py_integer v = (case v of PInt n \<Rightarrow> Some n | PLong n \<Rightarrow> Some n | _ \<Rightarrow> None)"

definition is_list :: "pyval \<Rightarrow> bool" where
  "is_list v = (case v of PList xs \<Rightarrow> True | _ \<Rightarrow> False)"

text \<open>\<open>for x in v\<close>: a list yields its elements, a text its characters.\<close>

definition py_iter :: "pyval \<Rightarrow> error + pyval list" where
  "py_iter v =
     (case v of
        PList xs \<Rightarrow> Inr xs
      | PUnicode s \<Rightarrow> Inr (map (\<lambda>c. PUnicode [c]) s)
      | PStr s \<Rightarrow> Inr (map (\<lambda>c. PStr [c]) s)
      | _ \<Rightarrow> Inl TypeError)"

text \<open>\<open>v[0]\<close>.\<close>

definition py_index0 :: "pyval \<Rightarrow> error + pyval" where
  "py_index0 v =
     (case v of
        PList xs \<Rightarrow> (case xs of [] \<Rightarrow> Inl IndexError | x # _ \<Rightarrow> Inr x)
      | PUnicode s \<Rightarrow> (case s of [] \<Rightarrow> Inl IndexError | c # _ \<Rightarrow> Inr (PUnicode [c]))
      | PStr s \<Rightarrow> (case s of [] \<Rightarrow> Inl IndexError | c # _ \<Rightarrow> Inr (PStr [c]))
      | _ \<Rightarrow> Inl TypeError)"

text \<open>
  Keys of a dictionary. Python compares keys by value, so \<open>unicode\<close> and \<open>str\<close> texts with
  the same characters are the same key, and so are an \<open>int\<close> and a \<open>long\<close> of the same
  value; a list is not hashable.
\<close>

datatype dkey = KStr string | KInt int | KTime datetime

definition py_hashkey :: "pyval \<Rightarrow> error + dkey" where
  "py_hashkey v =
     (case v of
        PUnicode s \<Rightarrow> Inr (KStr s)
      | PStr s \<Rightarrow> Inr (KStr s)
      | PInt n \<Rightarrow> Inr (KInt n)
      | PLong n \<Rightarrow> Inr (KInt n)
      | PDatetime d \<Rightarrow> Inr (KTime d)
      | PList xs \<Rightarrow> Inl TypeError)"

text \<open>The decimal text of an integer, \<open>unicode(n)\<close> and \<open>'%d' % n\<close>.\<close>

definition digit_char :: "nat \<Rightarrow> char" where
  "digit_char d = ''0123456789'' ! d"

function show_nat :: "nat \<Rightarrow> string" where
  "show_nat n = (if n < 10 then [digit_char n] else show_nat (n div 10) @ [digit_char (n mod 10)])"
  by pat_completeness auto
termination
  by (relation "measure (\<lambda>n. n)") auto

definition show_int :: "int \<Rightarrow> string" where
  "show_int i = (if i < 0 then CHR ''-'' # show_nat (nat (- i)) else show_nat (nat i))"

text \<open>
  \<open>py_split sep s\<close> is \<open>s.split(sep)\<close> for a non-empty separator: the separators are found
  from left to right and do not overlap. (Python raises \<open>ValueError\<close> on an empty
  separator; the source only splits on \<open>'-'\<close>.)
\<close>

function py_split :: "string \<Rightarrow> string \<Rightarrow> string list" where
  "py_split sep [] = [[]]"
| "py_split sep (c # cs) =
     (if sep \<noteq> [] \<and> take (length sep) (c # cs) = sep
      then [] # py_split sep (drop (length sep) (c # cs))
      else (case py_split sep cs of w # ws \<Rightarrow> (c # w) # ws | [] \<Rightarrow> [[c]]))"
  by pat_completeness auto
termination
  by (relation "measure (\<lambda>(sep, s). length s)") auto

text \<open>
  \<open>int(s)\<close> on a text: surrounding whitespace is ignored, one sign is allowed, and the
  rest must be one or more decimal digits; otherwise \<open>ValueError\<close>, here \<open>None\<close>.
\<close>

definition py_space :: "char \<Rightarrow> bool" where
  "py_space c = (c \<in> set [CHR '' '', CHR 0x09, CHR 0x0A, CHR 0x0B, CHR 0x0C, CHR 0x0D])"

definition py_strip :: "string \<Rightarrow> string" where
  "py_strip s = rev (dropWhile py_space (rev (dropWhile py_space s)))"

definition digit_val :: "char \<Rightarrow> int option" where
  "digit_val c = map_of (zip ''0123456789'' [0, 1, 2, 3, 4, 5, 6, 7, 8, 9]) c"

definition digits_val :: "string \<Rightarrow> int option" where
  "digits_val ds =
     (if ds \<noteq> [] \<and> (\<forall>c \<in> set ds. digit_val c \<noteq> None)
      then Some (foldl (\<lambda>a c. 10 * a + the (digit_val c)) 0 ds) else None)"

definition py_int :: "string \<Rightarrow> int option" where
  "py_int s =
     (case py_strip s of
        [] \<Rightarrow> None
      | c # cs \<Rightarrow>
          if c = CHR ''-'' then map_option uminus (digits_val cs)
          else if c = CHR ''+'' then digits_val cs
          else digits_val (c # cs))"

section \<open>Configuration and library functions\<close>

text \<open>The class \<open>domainDumpConfig\<close>.\<close>

record config =
  basepath :: string
  groupsfile :: string
  usersfile :: string
  computersfile :: string
  policyfile :: string
  users_by_group :: string
  computers_by_os :: string
  outputhtml :: bool
  outputjson :: bool
  outputgrep :: bool
  grepsplitchar :: string
  lookuphostnames :: bool
  dnsserver :: string

definition default_config :: config where
  "default_config = \<lparr>
     basepath = ''.'',
     groupsfile = ''domain_groups'',
     usersfile = ''domain_users'',
     computersfile = ''domain_computers'',
     policyfile = ''domain_policy'',
     users_by_group = ''domain_users_by_group'',
     computers_by_os = ''domain_computers_by_os'',
     outputhtml = True,
     outputjson = True,
     outputgrep = True,
     grepsplitchar = [CHR 0x09],
     lookuphostnames = False,
     dnsserver = [] \<rparr>"

text \<open>
  Functions of the Python library and of the packages the source imports, and the
  iteration order of a dictionary, are parameters of the model:
  \<^item> \<open>parse_dn\<close>: \<open>ldap3.utils.dn.parse_dn\<close>, the list of (type, value, separator) of the
    components of a DN, \<open>None\<close> when it raises \<open>LDAPInvalidDnError\<close>;
  \<^item> \<open>quote_plus\<close>: \<open>urllib.quote_plus\<close>;
  \<^item> \<open>strftime\<close>: \<open>value.strftime('%x %X')\<close> of a datetime, \<open>None\<close> when it raises
    \<open>ValueError\<close>;
  \<^item> \<open>decode_replace\<close>: \<open>unicode(value, errors='replace')\<close> of a \<open>str\<close>;
  \<^item> \<open>fmt_days\<close>: \<open>'%.2f days' % (n * .0000001 / 86400)\<close> and \<open>fmt_minutes\<close>:
    \<open>'%.1f minutes' % (n * .0000001 / 60)\<close>, floating-point computations on an integer;
  \<^item> \<open>entry_to_json\<close>: the method of that name of an entry of the directory library;
  \<^item> \<open>json_dumps\<close>: \<open>json.dumps\<close> of a dictionary key;
  \<^item> \<open>dict_items\<close>: the pairs of a dictionary in the order in which the interpreter
    iterates over it (\<open>iteritems()\<close>);
  \<^item> \<open>flag_items\<close>: the same for a table of flags (\<open>items()\<close>);
  \<^item> \<open>style_css\<close>: the content of the file \<open>style.css\<close> of the package, \<open>None\<close> when it
    cannot be read.
\<close>

record lib =
  parse_dn :: "string \<Rightarrow> (string \<times> string \<times> string) list option"
  quote_plus :: "string \<Rightarrow> string"
  strftime :: "datetime \<Rightarrow> string option"
  decode_replace :: "string \<Rightarrow> string"
  fmt_days :: "int \<Rightarrow> string"
  fmt_minutes :: "int \<Rightarrow> string"
  entry_to_json :: "entry \<Rightarrow> string"
  json_dumps :: "dkey \<Rightarrow> string"
  dict_items :: "(dkey \<rightharpoonup> entry list) \<Rightarrow> (dkey \<times> entry list) list"
  flag_items :: "(string \<rightharpoonup> int) \<Rightarrow> (string \<times> int) list"
  style_css :: "string option"

section \<open>The attribute decoder\<close>

text \<open>
  The two flag tables are dictionaries from the name of a flag to its bitmask, built
  from the pairs of the source's literals. A dictionary of Python 2 has no order of its
  own: the order of the literal is not kept, and \<open>flags_def.items()\<close> lists the pairs in
  the order of the interpreter, which is the library parameter \<open>flag_items\<close>.
\<close>

definition uac_table :: "(string \<times> int) list" where
  "uac_table =
     [(''ACCOUNT_DISABLED'', 0x00000002),
      (''ACCOUNT_LOCKED'', 0x00000010),
      (''PASSWD_NOTREQD'', 0x00000020),
      (''PASSWD_CANT_CHANGE'', 0x00000040),
      (''NORMAL_ACCOUNT'', 0x00000200),
      (''WORKSTATION_ACCOUNT'', 0x00001000),
      (''SERVER_TRUST_ACCOUNT'', 0x00002000),
      (''DONT_EXPIRE_PASSWD'', 0x00010000),
      (''SMARTCARD_REQUIRED'', 0x00040000),
      (''PASSWORD_EXPIRED'', 0x00800000)]"

definition uac_flags :: "string \<rightharpoonup> int" where
  "uac_flags = map_of uac_table"

definition pwd_table :: "(string \<times> int) list" where
  "pwd_table =
     [(''PASSWORD_COMPLEX'', 0x01),
      (''PASSWORD_NO_ANON_CHANGE'', 0x02),
      (''PASSWORD_NO_CLEAR_CHANGE'', 0x04),
      (''LOCKOUT_ADMINS'', 0x08),
      (''PASSWORD_STORE_CLEARTEXT'', 0x10),
      (''REFUSE_PASSWORD_CHANGE'', 0x20)]"

definition pwd_flags :: "string \<rightharpoonup> int" where
  "pwd_flags = map_of pwd_table"

definition attr_translations :: "(string \<times> string) list" where
  "attr_translations =
     [(''sAMAccountName'', ''SAM Name''),
      (''cn'', ''CN''),
      (''operatingSystem'', ''Operating System''),
      (''operatingSystemServicePack'', ''Service Pack''),
      (''operatingSystemVersion'', ''OS Version''),
      (''userAccountControl'', ''Flags''),
      (''objectSid'', ''SID''),
      (''memberOf'', ''Member of groups''),
      (''dNSHostName'', ''DNS Hostname''),
      (''whenCreated'', ''Created on''),
      (''whenChanged'', ''Changed on''),
      (''IPv4'', ''IPv4 Address''),
      (''lockOutObservationWindow'', ''Lockout time window''),
      (''lockoutDuration'', ''Lockout Duration''),
      (''lockoutThreshold'', ''Lockout Threshold''),
      (''maxPwdAge'', ''Max password age''),
      (''minPwdAge'', ''Min password age''),
      (''minPwdLength'', ''Min password length'')]"

text \<open>\<open>value & val\<close>: defined on integers, \<open>TypeError\<close> on text, datetimes and lists.\<close>

definition py_and :: "pyval \<Rightarrow> int \<Rightarrow> error + int" where
  "py_and v val = (case py_integer v of None \<Rightarrow> Inl TypeError | Some n \<Rightarrow> Inr (n AND val))"

text \<open>
  \<open>parseFlags\<close>: the loop over the items of the table appends the name of every flag
  whose bitmask has a bit in common with the attribute's value.
\<close>

fun parseFlags_loop :: "pyval \<Rightarrow> (string \<times> int) list \<Rightarrow> string list \<Rightarrow> error + string list" where
  "parseFlags_loop v [] outflags = Inr outflags"
| "parseFlags_loop v ((flag, val) # flags_def) outflags =
     (case py_and v val of
        Inl e \<Rightarrow> Inl e
      | Inr r \<Rightarrow> parseFlags_loop v flags_def (if r \<noteq> 0 then outflags @ [flag] else outflags))"

definition parseFlags :: "lib \<Rightarrow> attribute \<Rightarrow> (string \<rightharpoonup> int) \<Rightarrow> error + string list" where
  "parseFlags L att flags_def = parseFlags_loop (att_value att) (flag_items L flags_def) []"

definition dquote :: char where
  "dquote = CHR 0x22"

definition htmlescape :: "string \<Rightarrow> string" where
  "htmlescape html =
     py_replace [dquote] ''&quot;''
       (py_replace [CHR 0x27] ''&#39;''
         (py_replace ''>'' ''&gt;''
           (py_replace ''<'' ''&lt;''
             (py_replace ''&'' ''&amp;'' html))))"

text \<open>
  \<open>formatString\<close> by the type of the value; a value of any other type (a \<open>long\<close>, a list)
  is returned as it is.
\<close>

definition formatString :: "lib \<Rightarrow> pyval \<Rightarrow> pyval" where
  "formatString L v =
     (case v of
        PDatetime d \<Rightarrow> (case strftime L d of Some s \<Rightarrow> PStr s | None \<Rightarrow> PUnicode ''0'')
      | PUnicode s \<Rightarrow> PUnicode s
      | PStr s \<Rightarrow> PUnicode (decode_replace L s)
      | PInt n \<Rightarrow> PUnicode (show_int n)
      | _ \<Rightarrow> v)"

text \<open>
  \<open>formatId\<close>: \<open>re.sub('[^a-zA-Z0-9_\-]+', '_', cn)\<close> replaces every maximal run of
  characters outside the class by one underscore.
\<close>

definition id_char :: "char \<Rightarrow> bool" where
  "id_char c =
     (c \<in> set ''abcdefghijklmnopqrstuvwxyzABCDEFGHIJKLMNOPQRSTUVWXYZ0123456789_-'')"

function formatId :: "string \<Rightarrow> string" where
  "formatId [] = []"
| "formatId (c # cs) =
     (if id_char c then c # formatId cs
      else CHR ''_'' # formatId (dropWhile (\<lambda>c. \<not> id_char c) cs))"
  by pat_completeness auto
termination
  by (relation "measure length") (auto simp: length_dropWhile_le less_Suc_eq_le)

text \<open>
  The argument of \<open>dn.parse_dn\<close> has to be a text, and \<open>dn.parse_dn(group)[0][1]\<close> is the
  value of the first component of the DN.
\<close>

definition dn_text :: "pyval \<Rightarrow> error + string" where
  "dn_text grp = (case py_text grp of None \<Rightarrow> Inl TypeError | Some g \<Rightarrow> Inr g)"

definition first_rdn_value :: "lib \<Rightarrow> string \<Rightarrow> error + string" where
  "first_rdn_value L g =
     (case parse_dn L g of
        None \<Rightarrow> Inl LDAPInvalidDnError
      | Some [] \<Rightarrow> Inl IndexError
      | Some ((t, v, sep) # _) \<Rightarrow> Inr v)"

fun formatGroupsHtml_loop :: "lib \<Rightarrow> config \<Rightarrow> pyval list \<Rightarrow> error + string list" where
  "formatGroupsHtml_loop L cfg [] = Inr []"
| "formatGroupsHtml_loop L cfg (grp # grouplist) =
     ebind (dn_text grp) (\<lambda>g.
     ebind (first_rdn_value L g) (\<lambda>v.
     ebind (formatGroupsHtml_loop L cfg grouplist) (\<lambda>outcache.
       Inr ((''<a href='' @ [dquote] @ users_by_group cfg @ ''.html#cn_''
              @ quote_plus L (formatId (rw_unescapecn v)) @ [dquote] @ '' title='' @ [dquote]
              @ htmlescape g @ [dquote] @ ''>'' @ htmlescape (rw_unescapecn v) @ ''</a>'')
            # outcache))))"

definition formatGroupsHtml :: "lib \<Rightarrow> config \<Rightarrow> pyval \<Rightarrow> error + string" where
  "formatGroupsHtml L cfg grouplist =
     ebind (py_iter grouplist) (\<lambda>groups.
     ebind (formatGroupsHtml_loop L cfg groups) (\<lambda>outcache.
       Inr (py_join '', '' outcache)))"

fun formatGroupsGrep_loop :: "lib \<Rightarrow> pyval list \<Rightarrow> error + string list" where
  "formatGroupsGrep_loop L [] = Inr []"
| "formatGroupsGrep_loop L (grp # grouplist) =
     ebind (dn_text grp) (\<lambda>g.
     ebind (first_rdn_value L g) (\<lambda>v.
     ebind (formatGroupsGrep_loop L grouplist) (\<lambda>outcache.
       Inr (rw_unescapecn v # outcache))))"

definition formatGroupsGrep :: "lib \<Rightarrow> pyval \<Rightarrow> error + string" where
  "formatGroupsGrep L grouplist =
     ebind (py_iter grouplist) (\<lambda>groups.
     ebind (formatGroupsGrep_loop L groups) (\<lambda>outcache.
       Inr (py_join '', '' outcache)))"

text \<open>
  \<open>nsToDays\<close> and \<open>nsToMinutes\<close> take the absolute value of the tick count; \<open>abs\<close> raises
  \<open>TypeError\<close> on a value that is not a number.
\<close>

definition format_days :: "lib \<Rightarrow> pyval \<Rightarrow> error + string" where
  "format_days L v =
     (case py_integer v of None \<Rightarrow> Inl TypeError | Some n \<Rightarrow> Inr (fmt_days L (abs n)))"

definition format_minutes :: "lib \<Rightarrow> pyval \<Rightarrow> error + string" where
  "format_minutes L v =
     (case py_integer v of None \<Rightarrow> Inl TypeError | Some n \<Rightarrow> Inr (fmt_minutes L (abs n)))"

text \<open>
  \<open>formatAttribute\<close>, the decoder of the markup renderer. In the last case \<open>htmlescape\<close>
  calls \<open>replace\<close> on the formatted value, which raises \<open>AttributeError\<close> when that is not
  a text.
\<close>

definition formatAttribute :: "lib \<Rightarrow> config \<Rightarrow> attribute \<Rightarrow> error + string" where
  "formatAttribute L cfg att =
     (let aname = lower (att_key att) in
      if aname = ''useraccountcontrol''
      then ebind (parseFlags L att uac_flags) (\<lambda>fl. Inr (py_join '', '' fl))
      else if aname = ''member'' \<or> aname = ''memberof'' \<and> is_list (att_values att)
      then formatGroupsHtml L cfg (att_values att)
      else if aname = ''pwdproperties''
      then ebind (parseFlags L att pwd_flags) (\<lambda>fl. Inr (py_join '', '' fl))
      else if aname = ''minpwdage'' \<or> aname = ''maxpwdage''
      then format_days L (att_value att)
      else if aname = ''lockoutobservationwindow'' \<or> aname = ''lockoutduration''
      then format_minutes L (att_value att)
      else (case py_text (formatString L (att_value att)) of
              None \<Rightarrow> Inl AttributeError
            | Some s \<Rightarrow> Inr (htmlescape s)))"

text \<open>
  \<open>formatGrepAttribute\<close>, the decoder of the flat-text renderer. Its last case returns
  what \<open>formatString\<close> returns, which need not be a text.
\<close>

definition formatGrepAttribute :: "lib \<Rightarrow> attribute \<Rightarrow> error + pyval" where
  "formatGrepAttribute L att =
     (let aname = lower (att_key att) in
      if aname = ''useraccountcontrol''
      then ebind (parseFlags L att uac_flags) (\<lambda>fl. Inr (PStr (py_join '', '' fl)))
      else if aname = ''member'' \<or> aname = ''memberof'' \<and> is_list (att_values att)
      then ebind (formatGroupsGrep L (att_values att)) (\<lambda>s. Inr (PUnicode s))
      else if aname = ''pwdproperties''
      then ebind (parseFlags L att pwd_flags) (\<lambda>fl. Inr (PStr (py_join '', '' fl)))
      else if aname = ''minpwdage'' \<or> aname = ''maxpwdage''
      then ebind (format_days L (att_value att)) (\<lambda>s. Inr (PStr s))
      else if aname = ''lockoutobservationwindow'' \<or> aname = ''lockoutduration''
      then ebind (format_minutes L (att_value att)) (\<lambda>s. Inr (PStr s))
      else Inr (formatString L (att_value att)))"

section \<open>The identity resolver and the relational indexer\<close>

text \<open>
  The state of a \<open>domainDumper\<close> after the fetches: the lists of entries, and the map from
  group ids to common names, \<open>None\<close> until it is built. A Python dictionary is a map; it
  has no order of its own.
\<close>

record domainDumper =
  dd_users :: "entry list"
  dd_groups :: "entry list"
  dd_computers :: "entry list"
  dd_policy :: "entry list"
  groups_cnmap :: "(int \<rightharpoonup> pyval) option"

text \<open>
  \<open>sortComputersByOS\<close>. The key is \<open>computer.operatingSystem.value\<close>, or \<open>'Unknown'\<close> when
  the attribute is absent; indexing the dictionary raises \<open>TypeError\<close> when the key is not
  hashable.
\<close>

definition computer_os :: "entry \<Rightarrow> pyval" where
  "computer_os computer =
     (case entry_getattr computer ''operatingSystem'' of
        Inl e \<Rightarrow> PStr ''Unknown''
      | Inr a \<Rightarrow> att_value a)"

fun sortComputersByOS_loop ::
  "entry list \<Rightarrow> (dkey \<rightharpoonup> entry list) \<Rightarrow> error + (dkey \<rightharpoonup> entry list)" where
  "sortComputersByOS_loop [] osdict = Inr osdict"
| "sortComputersByOS_loop (computer # items) osdict =
     ebind (py_hashkey (computer_os computer)) (\<lambda>cos.
       sortComputersByOS_loop items
         (case osdict cos of
            Some members \<Rightarrow> osdict(cos \<mapsto> members @ [computer])
          | None \<Rightarrow> osdict(cos \<mapsto> [computer])))"

definition sortComputersByOS :: "entry list \<Rightarrow> error + (dkey \<rightharpoonup> entry list)" where
  "sortComputersByOS items = sortComputersByOS_loop items Map.empty"

text \<open>
  \<open>mapGroupsIdsToCns\<close>. The id of a group is the last token of its SID, split on
  dashes, converted by \<open>int\<close>; \<open>split\<close> exists on texts only.
\<close>

definition group_gid :: "entry \<Rightarrow> error + int" where
  "group_gid grp =
     ebind (entry_getattr grp ''objectSid'') (\<lambda>a.
       case py_text (att_value a) of
         None \<Rightarrow> Inl AttributeError
       | Some sid \<Rightarrow>
           (case py_int (last (py_split ''-'' sid)) of
              None \<Rightarrow> Inl ValueError
            | Some gid \<Rightarrow> Inr gid))"

definition group_cn0 :: "entry \<Rightarrow> error + pyval" where
  "group_cn0 grp = ebind (entry_getattr grp ''cn'') (\<lambda>a. py_index0 (att_values a))"

fun mapGroupsIdsToCns_loop :: "entry list \<Rightarrow> (int \<rightharpoonup> pyval) \<Rightarrow> error + (int \<rightharpoonup> pyval)" where
  "mapGroupsIdsToCns_loop [] cnmap = Inr cnmap"
| "mapGroupsIdsToCns_loop (grp # groups) cnmap =
     ebind (group_gid grp) (\<lambda>gid.
     ebind (group_cn0 grp) (\<lambda>cn.
       mapGroupsIdsToCns_loop groups (cnmap(gid \<mapsto> cn))))"

definition mapGroupsIdsToCns :: "domainDumper \<Rightarrow> error + (int \<rightharpoonup> pyval) \<times> domainDumper" where
  "mapGroupsIdsToCns dd =
     ebind (mapGroupsIdsToCns_loop (dd_groups dd) Map.empty) (\<lambda>cnmap.
       Inr (cnmap, dd\<lparr>groups_cnmap := Some cnmap\<rparr>))"

definition getGroupCnFromDn :: "lib \<Rightarrow> pyval \<Rightarrow> error + string" where
  "getGroupCnFromDn L dnin =
     ebind (dn_text dnin) (\<lambda>g.
     ebind (first_rdn_value L g) (\<lambda>v. Inr (unescapecn v)))"

fun emap :: "('a \<Rightarrow> error + 'b) \<Rightarrow> 'a list \<Rightarrow> error + 'b list" where
  "emap f [] = Inr []"
| "emap f (x # xs) = ebind (f x) (\<lambda>y. ebind (emap f xs) (\<lambda>ys. Inr (y # ys)))"

text \<open>
  \<open>sortUsersByGroup\<close>. The names of a user's groups: the common names of the DNs of
  \<open>memberOf\<close>, or none when an \<open>LDAPAttributeError\<close> is raised while they are computed,
  and then the name of the primary group, looked up in the map by
  \<open>user.primaryGroupId.value\<close>. Only \<open>LDAPAttributeError\<close> is caught, and only around the
  first part.
\<close>

definition user_memberOf :: "lib \<Rightarrow> entry \<Rightarrow> error + pyval list" where
  "user_memberOf L user =
     (case ebind (entry_getattr user ''memberOf'') (\<lambda>a.
             ebind (py_iter (att_values a)) (\<lambda>groups.
             ebind (emap (getGroupCnFromDn L) groups) (\<lambda>cns. Inr (map PUnicode cns)))) of
        Inl e \<Rightarrow> (if e = LDAPAttributeError then Inr [] else Inl e)
      | Inr ugroups \<Rightarrow> Inr ugroups)"

definition cnmap_lookup :: "(int \<rightharpoonup> pyval) \<Rightarrow> pyval \<Rightarrow> error + pyval" where
  "cnmap_lookup cnmap v =
     ebind (py_hashkey v) (\<lambda>k.
       case k of
         KInt gid \<Rightarrow> (case cnmap gid of None \<Rightarrow> Inl KeyError | Some cn \<Rightarrow> Inr cn)
       | _ \<Rightarrow> Inl KeyError)"

definition user_primary_group :: "(int \<rightharpoonup> pyval) \<Rightarrow> entry \<Rightarrow> error + pyval" where
  "user_primary_group cnmap user =
     ebind (entry_getattr user ''primaryGroupId'') (\<lambda>a. cnmap_lookup cnmap (att_value a))"

definition user_groups :: "lib \<Rightarrow> (int \<rightharpoonup> pyval) \<Rightarrow> entry \<Rightarrow> error + pyval list" where
  "user_groups L cnmap user =
     ebind (user_memberOf L user) (\<lambda>ugroups.
     ebind (user_primary_group cnmap user) (\<lambda>pg. Inr (ugroups @ [pg])))"

fun add_user_to_groups ::
  "entry \<Rightarrow> pyval list \<Rightarrow> (dkey \<rightharpoonup> entry list) \<Rightarrow> error + (dkey \<rightharpoonup> entry list)" where
  "add_user_to_groups user [] groupsdict = Inr groupsdict"
| "add_user_to_groups user (grp # ugroups) groupsdict =
     ebind (py_hashkey grp) (\<lambda>k.
       add_user_to_groups user ugroups
         (case groupsdict k of
            Some members \<Rightarrow> groupsdict(k \<mapsto> members @ [user])
          | None \<Rightarrow> groupsdict(k \<mapsto> [user])))"

fun sortUsersByGroup_loop ::
  "lib \<Rightarrow> (int \<rightharpoonup> pyval) \<Rightarrow> entry list \<Rightarrow> (dkey \<rightharpoonup> entry list)
   \<Rightarrow> error + (dkey \<rightharpoonup> entry list)" where
  "sortUsersByGroup_loop L cnmap [] groupsdict = Inr groupsdict"
| "sortUsersByGroup_loop L cnmap (user # items) groupsdict =
     ebind (user_groups L cnmap user) (\<lambda>ugroups.
     ebind (add_user_to_groups user ugroups groupsdict) (\<lambda>groupsdict'.
       sortUsersByGroup_loop L cnmap items groupsdict'))"

definition sortUsersByGroup ::
  "lib \<Rightarrow> domainDumper \<Rightarrow> entry list \<Rightarrow> error + (dkey \<rightharpoonup> entry list) \<times> domainDumper" where
  "sortUsersByGroup L dd items =
     ebind (case groups_cnmap dd of
              None \<Rightarrow> mapGroupsIdsToCns dd
            | Some cnmap \<Rightarrow> Inr (cnmap, dd)) (\<lambda>(cnmap, dd').
     ebind (sortUsersByGroup_loop L cnmap items Map.empty) (\<lambda>groupsdict.
       Inr (groupsdict, dd')))"

section \<open>The report renderers\<close>

definition newline :: char where
  "newline = CHR 0x0A"

text \<open>The column lists of \<open>reportWriter\<close>.\<close>

definition computerattributes :: "config \<Rightarrow> string list" where
  "computerattributes cfg =
     (if lookuphostnames cfg
      then [''cn'', ''sAMAccountName'', ''dNSHostName'', ''IPv4'', ''operatingSystem'',
            ''operatingSystemServicePack'', ''operatingSystemVersion'', ''lastLogon'',
            ''userAccountControl'', ''whenCreated'', ''objectSid'', ''description'']
      else [''cn'', ''sAMAccountName'', ''dNSHostName'', ''operatingSystem'',
            ''operatingSystemServicePack'', ''operatingSystemVersion'', ''lastLogon'',
            ''userAccountControl'', ''whenCreated'', ''objectSid'', ''description''])"

definition userattributes :: "string list" where
  "userattributes =
     [''cn'', ''name'', ''sAMAccountName'', ''memberOf'', ''whenCreated'', ''whenChanged'',
      ''lastLogon'', ''userAccountControl'', ''pwdLastSet'', ''objectSid'', ''description'']"

definition groupattributes :: "string list" where
  "groupattributes =
     [''cn'', ''sAMAccountName'', ''whenCreated'', ''whenChanged'', ''description'',
      ''objectSid'']"

definition policyattributes :: "string list" where
  "policyattributes =
     [''cn'', ''lockOutObservationWindow'', ''lockoutDuration'', ''lockoutThreshold'',
      ''maxPwdAge'', ''minPwdAge'', ''minPwdLength'', ''pwdHistoryLength'', ''pwdProperties'']"

subsection \<open>Markup\<close>

text \<open>
  A header cell shows the alias of the attribute when \<open>attr_translations\<close> has one, else
  the attribute's name.
\<close>

definition html_header_cell :: "string \<Rightarrow> string" where
  "html_header_cell hdr =
     ''<th>'' @ htmlescape (case map_of attr_translations hdr of Some t \<Rightarrow> t | None \<Rightarrow> hdr)
     @ ''</th>''"

text \<open>
  A data cell: the \<open>try\<close> block holds both the lookup \<open>li[att]\<close> and the call of
  \<open>formatAttribute\<close>, and \<open>LDAPKeyError\<close> is the one exception caught.
\<close>

definition html_cell :: "lib \<Rightarrow> config \<Rightarrow> entry \<Rightarrow> string \<Rightarrow> error + string" where
  "html_cell L cfg li att =
     (case ebind (entry_getitem li att) (formatAttribute L cfg) of
        Inl e \<Rightarrow> (if e = LDAPKeyError then Inr ''<td>&nbsp;</td>'' else Inl e)
      | Inr s \<Rightarrow> Inr (''<td>'' @ s @ ''</td>''))"

fun html_cells :: "lib \<Rightarrow> config \<Rightarrow> entry \<Rightarrow> string list \<Rightarrow> error + string" where
  "html_cells L cfg li [] = Inr []"
| "html_cells L cfg li (att # attributes) =
     ebind (html_cell L cfg li att) (\<lambda>c.
     ebind (html_cells L cfg li attributes) (\<lambda>cs. Inr (c @ cs)))"

fun html_rows :: "lib \<Rightarrow> config \<Rightarrow> entry list \<Rightarrow> string list \<Rightarrow> error + string" where
  "html_rows L cfg [] attributes = Inr []"
| "html_rows L cfg (li # listable) attributes =
     ebind (html_cells L cfg li attributes) (\<lambda>cs.
     ebind (html_rows L cfg listable attributes) (\<lambda>rs.
       Inr (''<tr>'' @ cs @ ''</tr>'' @ [newline] @ rs)))"

text \<open>
  The section header is a text for the plain reports and a dictionary key for the
  grouped ones; \<open>formatId\<close> raises \<open>TypeError\<close> on a key that is not a text.
\<close>

definition header_text :: "dkey \<Rightarrow> error + string" where
  "header_text header = (case header of KStr h \<Rightarrow> Inr h | _ \<Rightarrow> Inl TypeError)"

definition html_thead :: "string list \<Rightarrow> dkey \<Rightarrow> error + string" where
  "html_thead attributes header =
     (if header \<noteq> KStr []
      then ebind (header_text header) (\<lambda>h.
             Inr (''<thead><tr><td colspan='' @ [dquote] @ show_nat (length attributes)
                  @ [dquote] @ '' id='' @ [dquote] @ ''cn_'' @ formatId h @ [dquote] @ ''>''
                  @ h @ ''</td></tr></thead>''))
      else Inr [])"

definition generateHtmlTable ::
  "lib \<Rightarrow> config \<Rightarrow> entry list \<Rightarrow> string list \<Rightarrow> dkey \<Rightarrow> bool \<Rightarrow> error + string" where
  "generateHtmlTable L cfg listable attributes header firstTable =
     ebind (html_thead attributes header) (\<lambda>thead.
     ebind (html_rows L cfg listable attributes) (\<lambda>rows.
       Inr ((if firstTable then ''<table>'' else []) @ thead @ ''<tbody><tr>''
            @ concat (map html_header_cell attributes) @ ''</tr>'' @ [newline]
            @ rows @ ''</tbody>'' @ [newline])))"

fun generateGroupedHtmlTables_loop ::
  "lib \<Rightarrow> config \<Rightarrow> (dkey \<times> entry list) list \<Rightarrow> string list \<Rightarrow> bool \<Rightarrow> error + string" where
  "generateGroupedHtmlTables_loop L cfg [] attributes first = Inr []"
| "generateGroupedHtmlTables_loop L cfg ((osfamily, members) # groups) attributes first =
     ebind (generateHtmlTable L cfg members attributes osfamily first) (\<lambda>t.
     ebind (generateGroupedHtmlTables_loop L cfg groups attributes False) (\<lambda>ts.
       Inr (t @ ts)))"

definition generateGroupedHtmlTables ::
  "lib \<Rightarrow> config \<Rightarrow> (dkey \<rightharpoonup> entry list) \<Rightarrow> string list \<Rightarrow> error + string" where
  "generateGroupedHtmlTables L cfg groups attributes =
     generateGroupedHtmlTables_loop L cfg (dict_items L groups) attributes True"

subsection \<open>Flat text\<close>

text \<open>
  One line of the flat text: a field per attribute, the empty text when \<open>LDAPKeyError\<close> is
  raised, joined by the delimiter. \<open>join\<close> raises \<open>TypeError\<close> on a field that is not a
  text.
\<close>

definition grep_field :: "lib \<Rightarrow> entry \<Rightarrow> string \<Rightarrow> error + pyval" where
  "grep_field L entry attr =
     (case ebind (entry_getitem entry attr) (formatGrepAttribute L) of
        Inl e \<Rightarrow> (if e = LDAPKeyError then Inr (PStr []) else Inl e)
      | Inr v \<Rightarrow> Inr v)"

definition text_of :: "pyval \<Rightarrow> error + string" where
  "text_of v = (case py_text v of None \<Rightarrow> Inl TypeError | Some s \<Rightarrow> Inr s)"

definition grep_line :: "lib \<Rightarrow> config \<Rightarrow> entry \<Rightarrow> string list \<Rightarrow> error + string" where
  "grep_line L cfg entry attributes =
     ebind (emap (grep_field L entry) attributes) (\<lambda>eo.
     ebind (emap text_of eo) (\<lambda>flds.
       Inr (py_join (grepsplitchar cfg) flds)))"

definition generateGrepList ::
  "lib \<Rightarrow> config \<Rightarrow> entry list \<Rightarrow> string list \<Rightarrow> error + string" where
  "generateGrepList L cfg entrylist attributes =
     ebind (emap (\<lambda>entry. grep_line L cfg entry attributes) entrylist) (\<lambda>lines.
       Inr (py_join [newline] (py_join (grepsplitchar cfg) attributes # lines)))"

subsection \<open>Structured data\<close>

definition generateJsonList :: "lib \<Rightarrow> entry list \<Rightarrow> string" where
  "generateJsonList L entrylist = ''['' @ py_join '','' (map (entry_to_json L) entrylist) @ '']''"

definition generateJsonGroup :: "lib \<Rightarrow> dkey \<times> entry list \<Rightarrow> string" where
  "generateJsonGroup L grp =
     ''{'' @ json_dumps L (fst grp) @ '':'' @ generateJsonList L (snd grp) @ ''}''"

definition generateJsonGroupedList :: "lib \<Rightarrow> (dkey \<rightharpoonup> entry list) \<Rightarrow> string" where
  "generateJsonGroupedList L groups =
     ''['' @ py_join '','' (map (generateJsonGroup L) (dict_items L groups)) @ '']''"

section \<open>Writing the report files\<close>

text \<open>
  The output directory is a map from the path of a file to its content. Creating the
  directory and opening the files is outside the model; a write stores the content.
  \<open>path_join\<close> is \<open>os.path.join\<close> on two components.
\<close>

type_synonym files = "string \<rightharpoonup> string"

definition path_join :: "string \<Rightarrow> string \<Rightarrow> string" where
  "path_join a b =
     (if b \<noteq> [] \<and> hd b = CHR ''/'' then b
      else if a = [] \<or> last a = CHR ''/'' then a @ b
      else a @ ''/'' @ b)"

text \<open>\<open>contains sub s\<close> is \<open>sub in s\<close> on texts.\<close>

fun contains :: "string \<Rightarrow> string \<Rightarrow> bool" where
  "contains sub [] = (sub = [])"
| "contains sub (c # cs) = (take (length sub) (c # cs) = sub \<or> contains sub cs)"

definition writeHtmlFile :: "lib \<Rightarrow> config \<Rightarrow> string \<Rightarrow> string \<Rightarrow> files \<Rightarrow> files" where
  "writeHtmlFile L cfg rel_outfile body fs =
     fs(path_join (basepath cfg) rel_outfile \<mapsto>
        ''<!DOCTYPE html>'' @ [newline] @ ''<html>'' @ [newline]
        @ ''<head><meta charset='' @ [dquote] @ ''UTF-8'' @ [dquote] @ ''>''
        @ (case style_css L of
             Some css \<Rightarrow> ''<style type='' @ [dquote] @ ''text/css'' @ [dquote] @ ''>'' @ css
                         @ ''</style>''
           | None \<Rightarrow> [])
        @ ''</head><body>'' @ body
        @ (if contains ''<table>'' body \<and> \<not> contains ''</table>'' body then ''</table>'' else [])
        @ ''</body></html>'')"

definition writeJsonFile :: "config \<Rightarrow> string \<Rightarrow> string \<Rightarrow> files \<Rightarrow> files" where
  "writeJsonFile cfg rel_outfile body fs = fs(path_join (basepath cfg) rel_outfile \<mapsto> body)"

definition writeGrepFile :: "config \<Rightarrow> string \<Rightarrow> string \<Rightarrow> files \<Rightarrow> files" where
  "writeGrepFile cfg rel_outfile body fs = fs(path_join (basepath cfg) rel_outfile \<mapsto> body)"

text \<open>The reports of the grouped data: a markup file and a structured-data file.\<close>

definition generateComputersByOsReport ::
  "lib \<Rightarrow> config \<Rightarrow> domainDumper \<Rightarrow> files \<Rightarrow> error + files" where
  "generateComputersByOsReport L cfg dd fs =
     ebind (sortComputersByOS (dd_computers dd)) (\<lambda>grouped.
     ebind (if outputhtml cfg
            then ebind (generateGroupedHtmlTables L cfg grouped (computerattributes cfg)) (\<lambda>html.
                   Inr (writeHtmlFile L cfg (computers_by_os cfg @ ''.html'') html fs))
            else Inr fs) (\<lambda>fs1.
       if outputjson cfg
       then Inr (writeJsonFile cfg (computers_by_os cfg @ ''.json'')
                   (generateJsonGroupedList L grouped) fs1)
       else Inr fs1))"

definition generateUsersByGroupReport ::
  "lib \<Rightarrow> config \<Rightarrow> domainDumper \<Rightarrow> files \<Rightarrow> error + domainDumper \<times> files" where
  "generateUsersByGroupReport L cfg dd fs =
     ebind (sortUsersByGroup L dd (dd_users dd)) (\<lambda>(grouped, dd').
     ebind (if outputhtml cfg
            then ebind (generateGroupedHtmlTables L cfg grouped userattributes) (\<lambda>html.
                   Inr (writeHtmlFile L cfg (users_by_group cfg @ ''.html'') html fs))
            else Inr fs) (\<lambda>fs1.
       if outputjson cfg
       then Inr (dd', writeJsonFile cfg (users_by_group cfg @ ''.json'')
                        (generateJsonGroupedList L grouped) fs1)
       else Inr (dd', fs1)))"

text \<open>
  The four plain reports have one body, with the list of entries, the columns, the
  title and the base name of the files of each: a markup file, a structured-data file
  and a flat-text file.
\<close>

definition plain_report ::
  "lib \<Rightarrow> config \<Rightarrow> entry list \<Rightarrow> string list \<Rightarrow> string \<Rightarrow> string \<Rightarrow> files \<Rightarrow> error + files" where
  "plain_report L cfg entries attributes title file fs =
     ebind (if outputhtml cfg
            then ebind (generateHtmlTable L cfg entries attributes (KStr title) True) (\<lambda>html.
                   Inr (writeHtmlFile L cfg (file @ ''.html'') html fs))
            else Inr fs) (\<lambda>fs1.
     ebind (if outputjson cfg
            then Inr (writeJsonFile cfg (file @ ''.json'') (generateJsonList L entries) fs1)
            else Inr fs1) (\<lambda>fs2.
       if outputgrep cfg
       then ebind (generateGrepList L cfg entries attributes) (\<lambda>grepout.
              Inr (writeGrepFile cfg (file @ ''.grep'') grepout fs2))
       else Inr fs2))"

definition generateUsersReport ::
  "lib \<Rightarrow> config \<Rightarrow> domainDumper \<Rightarrow> files \<Rightarrow> error + files" where
  "generateUsersReport L cfg dd fs =
     plain_report L cfg (dd_users dd) userattributes ''Domain users'' (usersfile cfg) fs"

definition generateComputersReport ::
  "lib \<Rightarrow> config \<Rightarrow> domainDumper \<Rightarrow> files \<Rightarrow> error + files" where
  "generateComputersReport L cfg dd fs =
     plain_report L cfg (dd_computers dd) (computerattributes cfg)
       ''Domain computer accounts'' (computersfile cfg) fs"

definition generateGroupsReport ::
  "lib \<Rightarrow> config \<Rightarrow> domainDumper \<Rightarrow> files \<Rightarrow> error + files" where
  "generateGroupsReport L cfg dd fs =
     plain_report L cfg (dd_groups dd) groupattributes ''Domain groups'' (groupsfile cfg) fs"

definition generatePolicyReport ::
  "lib \<Rightarrow> config \<Rightarrow> domainDumper \<Rightarrow> files \<Rightarrow> error + files" where
  "generatePolicyReport L cfg dd fs =
     plain_report L cfg (dd_policy dd) policyattributes ''Domain policy'' (policyfile cfg) fs"

text \<open>
  \<open>domainDump\<close> after its fetches: the six reports in the order of the source. An
  exception in one report ends the run.
\<close>

definition domainDump :: "lib \<Rightarrow> config \<Rightarrow> domainDumper \<Rightarrow> files \<Rightarrow> error + files" where
  "domainDump L cfg dd fs =
     ebind (generateUsersReport L cfg dd fs) (\<lambda>fs1.
     ebind (generateGroupsReport L cfg dd fs1) (\<lambda>fs2.
     ebind (generateComputersReport L cfg dd fs2) (\<lambda>fs3.
     ebind (generateUsersByGroupReport L cfg dd fs3) (\<lambda>(dd', fs4).
     ebind (generateComputersByOsReport L cfg dd' fs4) (\<lambda>fs5.
       generatePolicyReport L cfg dd' fs5)))))"

section \<open>The structured data of an entry\<close>

datatype json = JString string | JNumber int | JArray "json list" | JObject "(string \<times> json) list"

definition pad2 :: "nat \<Rightarrow> string" where
  "pad2 n = (if n < 10 then CHR ''0'' # show_nat n else show_nat n)"

definition datetime_str :: "datetime \<Rightarrow> string" where
  "datetime_str d =
     (case d of Datetime y m dd hh mm ss \<Rightarrow>
        replicate (4 - length (show_nat y)) (CHR ''0'') @ show_nat y @ ''-'' @ pad2 m @ ''-''
        @ pad2 dd @ '' '' @ pad2 hh @ '':'' @ pad2 mm @ '':'' @ pad2 ss)"

fun json_of_value :: "pyval \<Rightarrow> json" where
  "json_of_value (PUnicode s) = JString s"
| "json_of_value (PStr s) = JString s"
| "json_of_value (PInt n) = JNumber n"
| "json_of_value (PLong n) = JNumber n"
| "json_of_value (PDatetime d) = JString (datetime_str d)"
| "json_of_value (PList xs) = JArray (map json_of_value xs)"

text \<open>
  Modelled from the spec: \<open>entry_to_json\<close> is a method of the entry objects of the
  directory library and is not part of the source, which only concatenates the texts it
  returns. Following the spec's structured-data renderer, the object of an entity holds
  each attribute that is present, verbatim: under the attribute's name, the values as
  the entry holds them (a datetime as its text), and the entry's DN. No function of the
  source is applied to them.
\<close>

definition entry_json :: "entry \<Rightarrow> json" where
  "entry_json e =
     JObject
       [(''attributes'',
           JObject (map (\<lambda>ka. (att_key (snd ka), json_of_value (att_values (snd ka))))
                      (entry_attributes e))),
        (''dn'', JString (entry_dn e))]"

text \<open>The value recorded in the object of an entity for the attribute of a given name.\<close>

definition json_attribute :: "json \<Rightarrow> string \<Rightarrow> json option" where
  "json_attribute j name =
     (case j of
        JObject flds \<Rightarrow>
          (case map_of flds ''attributes'' of
             Some (JObject attrs) \<Rightarrow> map_of attrs name
           | _ \<Rightarrow> None)
      | _ \<Rightarrow> None)"

text \<open>
  What it means for a recorded value to equal a flat-text field: a text with the same
  characters, a number with that decimal text, or a list of one such value.
\<close>

fun json_equals_text :: "json \<Rightarrow> string \<Rightarrow> bool" where
  "json_equals_text (JString s) t = (s = t)"
| "json_equals_text (JNumber n) t = (show_int n = t)"
| "json_equals_text (JArray [x]) t = json_equals_text x t"
| "json_equals_text (JArray xs) t = False"
| "json_equals_text (JObject flds) t = False"

text \<open>The flat-text field of an attribute of an entry, as \<open>generateGrepList\<close> computes it.\<close>

definition flat_text_field :: "lib \<Rightarrow> entry \<Rightarrow> string \<Rightarrow> error + string" where
  "flat_text_field L entry attr = ebind (grep_field L entry attr) text_of"

text \<open>A serialisation of a structured value, for the library instance of the examples.\<close>

definition json_quote :: "string \<Rightarrow> string" where
  "json_quote s =
     [dquote] @ py_replace [dquote] [backslash, dquote] (py_replace [backslash] [backslash, backslash] s)
     @ [dquote]"

fun json_text :: "json \<Rightarrow> string" where
  "json_text (JString s) = json_quote s"
| "json_text (JNumber n) = show_int n"
| "json_text (JArray xs) = ''['' @ py_join '', '' (map json_text xs) @ '']''"
| "json_text (JObject flds) =
     ''{'' @ py_join '', '' (map (\<lambda>kv. json_quote (fst kv) @ '': '' @ json_text (snd kv)) flds)
     @ ''}''"

section \<open>What the claims speak of\<close>

text \<open>
  A bitmask is a submask of a value when all its bits are set in the value; the names
  of a table whose bitmask is a submask of the value, in the order of the table.
\<close>

definition submask :: "int \<Rightarrow> int \<Rightarrow> bool" where
  "submask val v = (v AND val = val)"

definition flag_names :: "int \<Rightarrow> (string \<times> int) list \<Rightarrow> string list" where
  "flag_names v flags_def = map fst (filter (\<lambda>(flag, val). submask val v) flags_def)"

definition single_bits :: "(string \<times> int) list \<Rightarrow> bool" where
  "single_bits flags_def =
     list_all (\<lambda>(flag, val). val \<in> set (map (\<lambda>k. 2 ^ k) [0..<32])) flags_def"

text \<open>
  A list of pairs is an iteration of a dictionary when it holds each key once and the
  pairs of the dictionary, no other. The names of the flags of a dictionary whose
  bitmask is a submask of a value.
\<close>

definition dict_iteration :: "(string \<times> int) list \<Rightarrow> (string \<rightharpoonup> int) \<Rightarrow> bool" where
  "dict_iteration items d = (distinct (map fst items) \<and> map_of items = d)"

definition flags_set :: "int \<Rightarrow> (string \<rightharpoonup> int) \<Rightarrow> string set" where
  "flags_set v d = {flag. \<exists>val. d flag = Some val \<and> submask val v}"



text \<open>The keys of the computers of a list in the order of their first occurrence.\<close>

definition first_occurrence_keys :: "entry list \<Rightarrow> error + dkey list" where
  "first_occurrence_keys items =
     ebind (emap (\<lambda>c. py_hashkey (computer_os c)) items) (\<lambda>ks. Inr (rev (remdups (rev ks))))"

text \<open>
  The rendering of one group: the value is parsed as a DN and the value of its first
  component is unescaped.
\<close>

definition first_rdn_unescaped :: "lib \<Rightarrow> pyval \<Rightarrow> error + string" where
  "first_rdn_unescaped L grp =
     ebind (dn_text grp) (\<lambda>g. ebind (first_rdn_value L g) (\<lambda>v. Inr (rw_unescapecn v)))"

text \<open>
  The key under which a computer is classified, and the computers of a list that are
  classified under a given key, in the order of the list.
\<close>

definition os_key :: "entry \<Rightarrow> error + dkey" where
  "os_key computer = py_hashkey (computer_os computer)"

definition computers_with_key :: "dkey \<Rightarrow> entry list \<Rightarrow> entry list" where
  "computers_with_key k items = filter (\<lambda>c. os_key c = Inr k) items"


text \<open>
  The entries of a list can be rendered in the given columns when each attribute that is
  present is formatted without an exception by the decoder of the markup and by the
  decoder of the flat text, the latter to a text.
\<close>

definition attribute_renders :: "lib \<Rightarrow> config \<Rightarrow> attribute \<Rightarrow> bool" where
  "attribute_renders L cfg a =
     ((case formatAttribute L cfg a of Inl e \<Rightarrow> False | Inr s \<Rightarrow> True)
      \<and> (case formatGrepAttribute L a of Inl e \<Rightarrow> False | Inr v \<Rightarrow> py_text v \<noteq> None))"

definition renderable :: "lib \<Rightarrow> config \<Rightarrow> entry list \<Rightarrow> string list \<Rightarrow> bool" where
  "renderable L cfg entries attributes =
     list_all (\<lambda>li. list_all (\<lambda>att. case entry_find li att of
                                       None \<Rightarrow> True
                                     | Some a \<Rightarrow> attribute_renders L cfg a) attributes) entries"

text \<open>
  The path of the file of a report, and the files that the six reports write when the
  three formats are enabled: three for each plain report, two for each grouped report.
\<close>

definition output_path :: "config \<Rightarrow> string \<Rightarrow> string \<Rightarrow> string" where
  "output_path cfg R ext = path_join (basepath cfg) (R @ ''.'' @ ext)"

definition plain_files :: "config \<Rightarrow> string \<Rightarrow> string set" where
  "plain_files cfg R =
     {output_path cfg R ''html'', output_path cfg R ''json'', output_path cfg R ''grep''}"

definition grouped_files :: "config \<Rightarrow> string \<Rightarrow> string set" where
  "grouped_files cfg R = {output_path cfg R ''html'', output_path cfg R ''json''}"

definition written_files :: "config \<Rightarrow> string set" where
  "written_files cfg =
     plain_files cfg (usersfile cfg) \<union> plain_files cfg (groupsfile cfg)
     \<union> plain_files cfg (computersfile cfg) \<union> plain_files cfg (policyfile cfg)
     \<union> grouped_files cfg (users_by_group cfg) \<union> grouped_files cfg (computers_by_os cfg)"

section \<open>A library instance for the examples\<close>

text \<open>
  A concrete library for evaluating the model on examples: a DN is split at the commas
  that no backslash precedes and each component at its first \<open>=\<close>; dates are printed as
  the C locale does; texts are ASCII; tick counts are converted with exact arithmetic,
  rounded to the nearest; a dictionary is iterated in the order of a fixed list of keys.
\<close>

fun split_components :: "string \<Rightarrow> string list" where
  "split_components [] = [[]]"
| "split_components [c] = (if c = CHR '','' then [[], []] else [[c]])"
| "split_components (c # d # cs) =
     (if c = CHR 0x5C
      then (case split_components cs of w # ws \<Rightarrow> (c # d # w) # ws | [] \<Rightarrow> [[c, d]])
      else if c = CHR '','' then [] # split_components (d # cs)
      else (case split_components (d # cs) of w # ws \<Rightarrow> (c # w) # ws | [] \<Rightarrow> [[c]]))"

definition parse_component :: "string \<Rightarrow> (string \<times> string \<times> string) option" where
  "parse_component rdn =
     (if CHR ''='' \<in> set rdn
      then Some (takeWhile (\<lambda>c. c \<noteq> CHR ''='') rdn, tl (dropWhile (\<lambda>c. c \<noteq> CHR ''='') rdn), '','')
      else None)"

definition example_parse_dn :: "string \<Rightarrow> (string \<times> string \<times> string) list option" where
  "example_parse_dn s =
     (let comps = map parse_component (split_components s)
      in if list_all (\<lambda>c. c \<noteq> None) comps then Some (map the comps) else None)"

definition example_strftime :: "datetime \<Rightarrow> string option" where
  "example_strftime d =
     (case d of Datetime y m dd hh mm ss \<Rightarrow>
        if y < 1900 then None
        else Some (pad2 m @ ''/'' @ pad2 dd @ ''/'' @ pad2 (y mod 100) @ '' '' @ pad2 hh @ '':''
                   @ pad2 mm @ '':'' @ pad2 ss))"

definition example_fmt_days :: "int \<Rightarrow> string" where
  "example_fmt_days n =
     (let h = nat ((n * 100 + 432000000000) div 864000000000)
      in show_nat (h div 100) @ ''.'' @ pad2 (h mod 100) @ '' days'')"

definition example_fmt_minutes :: "int \<Rightarrow> string" where
  "example_fmt_minutes n =
     (let t = nat ((n * 10 + 300000000) div 600000000)
      in show_nat (t div 10) @ ''.'' @ show_nat (t mod 10) @ '' minutes'')"

definition example_json_dumps :: "dkey \<Rightarrow> string" where
  "example_json_dumps k =
     (case k of KStr s \<Rightarrow> json_quote s | KInt n \<Rightarrow> show_int n | KTime d \<Rightarrow> json_quote (datetime_str d))"

definition example_keys :: "dkey list" where
  "example_keys =
     [KStr ''Windows Server 2016'', KStr ''Domain Users'', KStr ''Unknown'',
      KStr ''Windows 10 Pro'', KStr ''Domain Admins'', KStr ''Sales, EMEA'']"

definition example_dict_items :: "(dkey \<rightharpoonup> entry list) \<Rightarrow> (dkey \<times> entry list) list" where
  "example_dict_items d =
     concat (map (\<lambda>k. case d k of None \<Rightarrow> [] | Some members \<Rightarrow> [(k, members)]) example_keys)"

text \<open>
  The tables of flags are iterated in the order in which CPython 2.7 iterates over the
  two dictionaries of the source.
\<close>

definition example_flag_keys :: "string list" where
  "example_flag_keys =
     [''DONT_EXPIRE_PASSWD'', ''PASSWD_NOTREQD'', ''PASSWORD_EXPIRED'', ''NORMAL_ACCOUNT'',
      ''ACCOUNT_DISABLED'', ''PASSWD_CANT_CHANGE'', ''ACCOUNT_LOCKED'', ''WORKSTATION_ACCOUNT'',
      ''SERVER_TRUST_ACCOUNT'', ''SMARTCARD_REQUIRED'',
      ''PASSWORD_STORE_CLEARTEXT'', ''PASSWORD_NO_ANON_CHANGE'', ''LOCKOUT_ADMINS'',
      ''REFUSE_PASSWORD_CHANGE'', ''PASSWORD_NO_CLEAR_CHANGE'', ''PASSWORD_COMPLEX'']"

definition example_flag_items :: "(string \<rightharpoonup> int) \<Rightarrow> (string \<times> int) list" where
  "example_flag_items d =
     concat (map (\<lambda>k. case d k of None \<Rightarrow> [] | Some val \<Rightarrow> [(k, val)]) example_flag_keys)"

definition example_lib :: lib where
  "example_lib = \<lparr>
     parse_dn = example_parse_dn,
     quote_plus = (\<lambda>s. s),
     strftime = example_strftime,
     decode_replace = (\<lambda>s. s),
     fmt_days = example_fmt_days,
     fmt_minutes = example_fmt_minutes,
     entry_to_json = (\<lambda>e. json_text (entry_json e)),
     json_dumps = example_json_dumps,
     dict_items = example_dict_items,
     flag_items = example_flag_items,
     style_css = None \<rparr>"

section \<open>Example data\<close>

definition sales_dn :: string where
  "sales_dn = ''CN=Sales'' @ [backslash] @ '', EMEA,OU=Groups,DC=corp''"

definition text_attribute :: "string \<Rightarrow> string \<Rightarrow> attribute" where
  "text_attribute name s = \<lparr>att_key = name, att_value = PUnicode s, att_values = PList [PUnicode s]\<rparr>"

definition int_attribute :: "string \<Rightarrow> int \<Rightarrow> attribute" where
  "int_attribute name n = \<lparr>att_key = name, att_value = PInt n, att_values = PList [PInt n]\<rparr>"

definition pc1 :: entry where
  "pc1 = \<lparr>entry_dn = ''CN=pc1,CN=Computers,DC=corp'',
          entry_attributes =
            [(''cn'', text_attribute ''cn'' ''pc1''),
             (''operatingSystem'', text_attribute ''operatingSystem'' ''Windows Server 2016''),
             (''userAccountControl'', int_attribute ''userAccountControl'' 0x210)]\<rparr>"

definition pc2 :: entry where
  "pc2 = \<lparr>entry_dn = ''CN=pc2,CN=Computers,DC=corp'',
          entry_attributes =
            [(''cn'', text_attribute ''cn'' ''pc2''),
             (''operatingSystem'', text_attribute ''operatingSystem'' ''Windows Server 2016'')]\<rparr>"

definition pc3 :: entry where
  "pc3 = \<lparr>entry_dn = ''CN=pc3,CN=Computers,DC=corp'',
          entry_attributes = [(''cn'', text_attribute ''cn'' ''pc3'')]\<rparr>"

definition sales_group :: entry where
  "sales_group =
     \<lparr>entry_dn = sales_dn,
      entry_attributes =
        [(''cn'', text_attribute ''cn'' ''Sales, EMEA''),
         (''sAMAccountName'', text_attribute ''sAMAccountName'' ''sales'')]\<rparr>"


definition broken_group :: entry where
  "broken_group =
     \<lparr>entry_dn = ''CN=Legacy,CN=Users,DC=corp'',
      entry_attributes =
        [(''cn'', text_attribute ''cn'' ''Legacy''),
         (''objectSid'', text_attribute ''objectSid'' ''S-1-5-21-1004336348-1177238915-x1'')]\<rparr>"





section \<open>Verified properties\<close>

subsection \<open>Helper lemmas\<close>

lemma ebind_Inr [simp]: "ebind (Inr x) f = f x"
  by (simp add: ebind_def)

lemma ebind_Inl [simp]: "ebind (Inl e) f = Inl e"
  by (simp add: ebind_def)

lemma ebind_eq_Inr: "ebind m f = Inr y \<longleftrightarrow> (\<exists>x. m = Inr x \<and> f x = Inr y)"
  by (cases m) simp_all

subsection \<open>Unescaping reverses escaping\<close>

lemma escape_set_Nil: "escape_set S [] = []"
  by (simp add: escape_set_def)

lemma escape_set_Cons:
  "escape_set S (c # cs) =
     (if c \<in> S then backslash # c # escape_set S cs else c # escape_set S cs)"
  by (simp add: escape_set_def)

lemma escape_set_head: "c \<in> S \<Longrightarrow> c \<noteq> backslash \<Longrightarrow> escape_set S s \<noteq> c # t"
  by (cases s) (auto simp: escape_set_Nil escape_set_Cons)

lemma replace_ne_match: "replace_ne [a, b] new (a # b # t) = new @ replace_ne [a, b] new t"
  by simp

lemma replace_ne_skip_fst:
  "x \<noteq> a \<Longrightarrow> replace_ne [a, b] new (x # s) = x # replace_ne [a, b] new s"
  by simp

lemma replace_ne_skip_snd:
  "(\<And>t. s \<noteq> b # t) \<Longrightarrow> replace_ne [a, b] new (x # s) = x # replace_ne [a, b] new s"
  by (cases s) auto

text \<open>
  One pass of the decoder on a text in which the characters of \<open>S\<close> are escaped: the
  pass for \<open>c\<close> leaves the text in which the characters of \<open>S\<close> other than \<open>c\<close> are
  escaped. A backslash that is followed by \<open>c\<close> is always the one that escapes it.
\<close>

lemma replace_escape_set:
  "c \<in> S \<Longrightarrow> replace_ne [backslash, c] [c] (escape_set S s) = escape_set (S - {c}) s"
proof (induction s)
  case Nil
  then show ?case by (simp add: escape_set_Nil)
next
  case (Cons x xs)
  have IH: "replace_ne [backslash, c] [c] (escape_set S xs) = escape_set (S - {c}) xs"
    using Cons by simp
  show ?case
  proof (cases "x = c")
    case True
    then show ?thesis using Cons.prems IH
      by (simp only: escape_set_Cons replace_ne_match) simp
  next
    case xc: False
    have step: "replace_ne [backslash, c] [c] (x # escape_set S xs)
                = x # replace_ne [backslash, c] [c] (escape_set S xs)"
    proof (cases "c = backslash")
      case True
      then show ?thesis using xc by (intro replace_ne_skip_fst) simp
    next
      case False
      then show ?thesis using Cons.prems escape_set_head[of c S xs]
        by (intro replace_ne_skip_snd) simp
    qed
    show ?thesis
    proof (cases "x \<in> S")
      case True
      have "replace_ne [backslash, c] [c] (backslash # x # escape_set S xs)
            = backslash # replace_ne [backslash, c] [c] (x # escape_set S xs)"
        using xc by (intro replace_ne_skip_snd) simp
      then show ?thesis using True xc step IH by (simp add: escape_set_Cons)
    next
      case False
      then show ?thesis using step IH by (simp add: escape_set_Cons)
    qed
  qed
qed

lemma py_replace_escape_set:
  "c \<in> S \<Longrightarrow> py_replace [backslash, c] [c] (escape_set S s) = escape_set (S - {c}) s"
  by (simp add: py_replace_def replace_escape_set)

lemma escape_set_empty: "escape_set {} s = s"
  by (induction s) (simp_all add: escape_set_Nil escape_set_Cons)

lemma unescape_passes:
  "distinct cs \<Longrightarrow> set cs \<subseteq> S \<Longrightarrow>
   foldl (\<lambda>cn c. py_replace [backslash, c] [c] cn) (escape_set S s) cs
     = escape_set (S - set cs) s"
proof (induction cs arbitrary: S)
  case Nil
  then show ?case by simp
next
  case (Cons c cs)
  have "foldl (\<lambda>cn c. py_replace [backslash, c] [c] cn) (escape_set S s) (c # cs)
        = foldl (\<lambda>cn c. py_replace [backslash, c] [c] cn) (escape_set (S - {c}) s) cs"
    using Cons.prems by (simp add: py_replace_escape_set)
  also have "\<dots> = escape_set (S - {c} - set cs) s"
    using Cons.prems by (intro Cons.IH) auto
  also have "S - {c} - set cs = S - set (c # cs)" by auto
  finally show ?case .
qed

lemma distinct_dn_special: "distinct dn_special"
  by (simp add: dn_special_def)

text \<open>
  Claim C9. For every text \<open>s\<close>, unescaping the escaped form of \<open>s\<close> gives \<open>s\<close> back, with
  the decoder's passes in their fixed order over the special characters (space, double
  quote, \<open>#\<close>, \<open>+\<close>, comma, \<open>;\<close>, \<open><\<close>, \<open>=\<close>, \<open>>\<close>, backslash, NUL). This holds for the
  decoder of \<open>domainDumper\<close> and for the one of \<open>reportWriter\<close>.
\<close>

theorem unescapecn_escape_roundtrip:
  "unescapecn (escape s) = s \<and> rw_unescapecn (escape s) = s"
  using unescape_passes[OF distinct_dn_special, of "set dn_special" s]
  by (simp add: unescapecn_def rw_unescapecn_def escape_def escape_set_empty)

subsection \<open>Decoding of bit flags\<close>

lemma and_exp_cases: "(n::int) AND 2 ^ k = (if bit n k then 2 ^ k else 0)"
  by (rule bit_eqI) (auto simp: bit_and_iff bit_exp_iff)

lemma single_bit: "((n::int) AND 2 ^ k \<noteq> 0) = (n AND 2 ^ k = 2 ^ k)"
  by (simp add: and_exp_cases)

lemma single_bits_uac: "single_bits uac_table"
  unfolding single_bits_def uac_table_def by (simp add: upt_rec)

lemma single_bits_pwd: "single_bits pwd_table"
  unfolding single_bits_def pwd_table_def by (simp add: upt_rec)

text \<open>Every iteration of a dictionary of single-bit masks lists single-bit masks.\<close>

lemma single_bits_iteration:
  assumes "dict_iteration items (map_of tbl)" and "single_bits tbl"
  shows "single_bits items"
proof -
  have "val \<in> set (map (\<lambda>k. 2 ^ k) [0..<32])" if "(flag, val) \<in> set items" for flag val
  proof -
    from assms(1) have d: "distinct (map fst items)" and m: "map_of items = map_of tbl"
      by (simp_all add: dict_iteration_def)
    from d that have "map_of items flag = Some val" by (rule map_of_is_SomeI)
    with m have "map_of tbl flag = Some val" by simp
    then have "(flag, val) \<in> set tbl" by (rule map_of_SomeD)
    with assms(2) show ?thesis by (auto simp: single_bits_def list_all_iff)
  qed
  then show ?thesis by (auto simp: single_bits_def list_all_iff)
qed

text \<open>
  The source tests \<open>value & val\<close> for being non-zero. On a table whose bitmasks have one
  bit each, this is the submask test.
\<close>

lemma parseFlags_loop_names:
  "py_integer v = Some n \<Longrightarrow> single_bits flags_def \<Longrightarrow>
   parseFlags_loop v flags_def outflags = Inr (outflags @ flag_names n flags_def)"
proof (induction flags_def arbitrary: outflags)
  case Nil
  then show ?case by (simp add: flag_names_def)
next
  case (Cons p ps)
  obtain flag val where p: "p = (flag, val)" by (cases p)
  from Cons.prems p obtain k where k: "val = 2 ^ k"
    by (auto simp: single_bits_def)
  have sb: "single_bits ps" using Cons.prems by (simp add: single_bits_def)
  show ?case
    using Cons.IH[OF Cons.prems(1) sb] Cons.prems(1) single_bit[of n k]
    by (simp add: p k py_and_def flag_names_def submask_def)
qed

lemma parseFlags_names:
  "py_integer (att_value att) = Some n \<Longrightarrow> dict_iteration (flag_items L (map_of tbl)) (map_of tbl)
   \<Longrightarrow> single_bits tbl \<Longrightarrow>
   parseFlags L att (map_of tbl) = Inr (flag_names n (flag_items L (map_of tbl)))"
  by (simp add: parseFlags_def parseFlags_loop_names single_bits_iteration)

lemma set_flag_names:
  assumes "dict_iteration items d"
  shows "set (flag_names v items) = flags_set v d"
proof -
  from assms have dist: "distinct (map fst items)" and m: "map_of items = d"
    by (simp_all add: dict_iteration_def)
  have "(map_of items flag = Some val) = ((flag, val) \<in> set items)" for flag val
    using dist by (rule map_of_eq_Some_iff)
  with m have "(d flag = Some val) = ((flag, val) \<in> set items)" for flag val by simp
  then show ?thesis
    by (force simp: flag_names_def flags_set_def)
qed

lemma distinct_flag_names:
  "dict_iteration items d \<Longrightarrow> distinct (flag_names v items)"
  by (simp add: dict_iteration_def flag_names_def distinct_map_filter)

lemma flag_names_empty:
  "dict_iteration items d \<Longrightarrow> flags_set v d = {} \<Longrightarrow> flag_names v items = []"
  using set_flag_names[of items d v] by simp

text \<open>
  Claim C1. For an attribute with an integer value \<open>v\<close>, both decoders return, for the
  account-control field against \<open>uac_flags\<close> and for the password-properties field
  against \<open>pwd_flags\<close>, the names of the flags whose bitmask is a submask of \<open>v\<close>, in the
  order in which the table is iterated, joined with a comma and a space. These names
  are, each once, exactly the names of the set of flags of the table whose bitmask is a
  submask of \<open>v\<close>; when that set is empty the result is the empty text and not an error.
  The iteration of a table lists each of its flags once, in the interpreter's order.
\<close>

theorem bit_flags_decoded:
  assumes "py_integer (att_value att) = Some v"
    and "dict_iteration (flag_items L uac_flags) uac_flags"
    and "dict_iteration (flag_items L pwd_flags) pwd_flags"
  shows "(lower (att_key att) = ''useraccountcontrol'' \<longrightarrow>
            formatAttribute L cfg att
              = Inr (py_join '', '' (flag_names v (flag_items L uac_flags))) \<and>
            formatGrepAttribute L att
              = Inr (PStr (py_join '', '' (flag_names v (flag_items L uac_flags)))))
       \<and> (lower (att_key att) = ''pwdproperties'' \<longrightarrow>
            formatAttribute L cfg att
              = Inr (py_join '', '' (flag_names v (flag_items L pwd_flags))) \<and>
            formatGrepAttribute L att
              = Inr (PStr (py_join '', '' (flag_names v (flag_items L pwd_flags)))))
       \<and> set (flag_names v (flag_items L uac_flags)) = flags_set v uac_flags
       \<and> distinct (flag_names v (flag_items L uac_flags))
       \<and> set (flag_names v (flag_items L pwd_flags)) = flags_set v pwd_flags
       \<and> distinct (flag_names v (flag_items L pwd_flags))
       \<and> (lower (att_key att) = ''useraccountcontrol'' \<and> flags_set v uac_flags = {} \<longrightarrow>
            formatAttribute L cfg att = Inr [] \<and> formatGrepAttribute L att = Inr (PStr []))
       \<and> (lower (att_key att) = ''pwdproperties'' \<and> flags_set v pwd_flags = {} \<longrightarrow>
            formatAttribute L cfg att = Inr [] \<and> formatGrepAttribute L att = Inr (PStr []))"
proof -
  have u: "parseFlags L att uac_flags = Inr (flag_names v (flag_items L uac_flags))"
    using parseFlags_names[of att v L uac_table] assms(1,2) single_bits_uac
    by (simp add: uac_flags_def)
  have p: "parseFlags L att pwd_flags = Inr (flag_names v (flag_items L pwd_flags))"
    using parseFlags_names[of att v L pwd_table] assms(1,3) single_bits_pwd
    by (simp add: pwd_flags_def)
  have ue: "flags_set v uac_flags = {} \<Longrightarrow> flag_names v (flag_items L uac_flags) = []"
    using assms(2) by (rule flag_names_empty)
  have pe: "flags_set v pwd_flags = {} \<Longrightarrow> flag_names v (flag_items L pwd_flags) = []"
    using assms(3) by (rule flag_names_empty)
  have fmt: "(lower (att_key att) = ''useraccountcontrol'' \<longrightarrow>
            formatAttribute L cfg att
              = Inr (py_join '', '' (flag_names v (flag_items L uac_flags))) \<and>
            formatGrepAttribute L att
              = Inr (PStr (py_join '', '' (flag_names v (flag_items L uac_flags)))))
       \<and> (lower (att_key att) = ''pwdproperties'' \<longrightarrow>
            formatAttribute L cfg att
              = Inr (py_join '', '' (flag_names v (flag_items L pwd_flags))) \<and>
            formatGrepAttribute L att
              = Inr (PStr (py_join '', '' (flag_names v (flag_items L pwd_flags)))))"
    using u p by (simp add: formatAttribute_def formatGrepAttribute_def Let_def)
  show ?thesis
    using fmt ue pe set_flag_names[OF assms(2), of v] set_flag_names[OF assms(3), of v]
      distinct_flag_names[OF assms(2), of v] distinct_flag_names[OF assms(3), of v]
    by auto
qed

lemma example_uac_items:
  "flag_items example_lib uac_flags =
     [(''DONT_EXPIRE_PASSWD'', 0x00010000), (''PASSWD_NOTREQD'', 0x00000020),
      (''PASSWORD_EXPIRED'', 0x00800000), (''NORMAL_ACCOUNT'', 0x00000200),
      (''ACCOUNT_DISABLED'', 0x00000002), (''PASSWD_CANT_CHANGE'', 0x00000040),
      (''ACCOUNT_LOCKED'', 0x00000010), (''WORKSTATION_ACCOUNT'', 0x00001000),
      (''SERVER_TRUST_ACCOUNT'', 0x00002000), (''SMARTCARD_REQUIRED'', 0x00040000)]"
  by (simp add: example_lib_def example_flag_items_def example_flag_keys_def uac_flags_def
      uac_table_def)

lemma example_pwd_items:
  "flag_items example_lib pwd_flags =
     [(''PASSWORD_STORE_CLEARTEXT'', 0x10), (''PASSWORD_NO_ANON_CHANGE'', 0x02),
      (''LOCKOUT_ADMINS'', 0x08), (''REFUSE_PASSWORD_CHANGE'', 0x20),
      (''PASSWORD_NO_CLEAR_CHANGE'', 0x04), (''PASSWORD_COMPLEX'', 0x01)]"
  by (simp add: example_lib_def example_flag_items_def example_flag_keys_def pwd_flags_def
      pwd_table_def)

lemma example_uac_iteration: "dict_iteration (flag_items example_lib uac_flags) uac_flags"
  unfolding dict_iteration_def example_uac_items
  by (simp add: uac_flags_def uac_table_def fun_eq_iff)

lemma example_pwd_iteration: "dict_iteration (flag_items example_lib pwd_flags) pwd_flags"
  unfolding dict_iteration_def example_pwd_items
  by (simp add: pwd_flags_def pwd_table_def fun_eq_iff)

theorem bit_flags_decoded_witness:
  "formatAttribute example_lib default_config
     \<lparr>att_key = ''userAccountControl'', att_value = PInt 0x210, att_values = PList [PInt 0x210]\<rparr>
     = Inr ''NORMAL_ACCOUNT, ACCOUNT_LOCKED''
   \<and> formatGrepAttribute example_lib
     \<lparr>att_key = ''userAccountControl'', att_value = PInt 0x210, att_values = PList [PInt 0x210]\<rparr>
     = Inr (PStr ''NORMAL_ACCOUNT, ACCOUNT_LOCKED'')
   \<and> formatAttribute example_lib default_config
     \<lparr>att_key = ''pwdProperties'', att_value = PInt 3, att_values = PList [PInt 3]\<rparr>
     = Inr ''PASSWORD_NO_ANON_CHANGE, PASSWORD_COMPLEX''
   \<and> formatAttribute example_lib default_config
     \<lparr>att_key = ''pwdProperties'', att_value = PInt 0, att_values = PList [PInt 0]\<rparr>
     = Inr []"
  using bit_flags_decoded[of
      "\<lparr>att_key = ''userAccountControl'', att_value = PInt 0x210, att_values = PList [PInt 0x210]\<rparr>"
      "0x210" example_lib default_config, OF _ example_uac_iteration example_pwd_iteration]
    bit_flags_decoded[of
      "\<lparr>att_key = ''pwdProperties'', att_value = PInt 3, att_values = PList [PInt 3]\<rparr>"
      3 example_lib default_config, OF _ example_uac_iteration example_pwd_iteration]
    bit_flags_decoded[of
      "\<lparr>att_key = ''pwdProperties'', att_value = PInt 0, att_values = PList [PInt 0]\<rparr>"
      0 example_lib default_config, OF _ example_uac_iteration example_pwd_iteration]
  by (simp add: py_integer_def lower_def lower_char_def flag_names_def example_uac_items
      example_pwd_items submask_def)

subsection \<open>The rendering of group lists\<close>

lemma formatGroupsGrep_loop_emap:
  "formatGroupsGrep_loop L groups = emap (first_rdn_unescaped L) groups"
  by (induction groups) (simp_all add: first_rdn_unescaped_def ebind_def split: sum.splits)

lemma sales_dn_cn: "first_rdn_unescaped example_lib (PUnicode sales_dn) = Inr ''Sales, EMEA''"
  by (simp add: first_rdn_unescaped_def dn_text_def py_text_def sales_dn_def
      first_rdn_value_def example_lib_def example_parse_dn_def backslash_def
      parse_component_def rw_unescapecn_def dn_special_def py_replace_def)

text \<open>
  Claim C10. For an attribute whose lowercased name is \<open>member\<close>, both decoders apply the
  rendering of group lists to \<open>values\<close> whatever \<open>values\<close> is; for the name \<open>memberof\<close> they
  apply it when \<open>values\<close> is a list and otherwise fall through to the general case. On a
  list, the flat-text rendering parses each value as a DN, unescapes the value of its
  first component and joins the names with a comma and a space.
\<close>

theorem member_group_rendering:
  "(lower (att_key att) = ''member'' \<longrightarrow>
      formatAttribute L cfg att = formatGroupsHtml L cfg (att_values att) \<and>
      formatGrepAttribute L att
        = ebind (formatGroupsGrep L (att_values att)) (\<lambda>s. Inr (PUnicode s)))
   \<and> (lower (att_key att) = ''memberof'' \<and> is_list (att_values att) \<longrightarrow>
      formatAttribute L cfg att = formatGroupsHtml L cfg (att_values att) \<and>
      formatGrepAttribute L att
        = ebind (formatGroupsGrep L (att_values att)) (\<lambda>s. Inr (PUnicode s)))
   \<and> (lower (att_key att) = ''memberof'' \<and> \<not> is_list (att_values att) \<longrightarrow>
      formatAttribute L cfg att
        = (case py_text (formatString L (att_value att)) of
             None \<Rightarrow> Inl AttributeError | Some s \<Rightarrow> Inr (htmlescape s)) \<and>
      formatGrepAttribute L att = Inr (formatString L (att_value att)))
   \<and> formatGroupsGrep L (PList groups)
        = ebind (emap (first_rdn_unescaped L) groups) (\<lambda>cns. Inr (py_join '', '' cns))"
  by (simp add: formatAttribute_def formatGrepAttribute_def Let_def formatGroupsGrep_def
      py_iter_def formatGroupsGrep_loop_emap)

theorem member_group_rendering_witness:
  "formatGrepAttribute example_lib
     \<lparr>att_key = ''member'', att_value = PUnicode sales_dn, att_values = PList [PUnicode sales_dn]\<rparr>
     = Inr (PUnicode ''Sales, EMEA'')
   \<and> formatGrepAttribute example_lib
     \<lparr>att_key = ''member'', att_value = PInt 5, att_values = PInt 5\<rparr> = Inl TypeError
   \<and> formatGrepAttribute example_lib
     \<lparr>att_key = ''memberOf'', att_value = PInt 5, att_values = PInt 5\<rparr> = Inr (PUnicode ''5'')
   \<and> formatGrepAttribute example_lib
     \<lparr>att_key = ''memberOf'', att_value = PUnicode sales_dn, att_values = PList [PUnicode sales_dn]\<rparr>
     = Inr (PUnicode ''Sales, EMEA'')"
  using member_group_rendering[of
      "\<lparr>att_key = ''member'', att_value = PUnicode sales_dn, att_values = PList [PUnicode sales_dn]\<rparr>"
      example_lib default_config "[PUnicode sales_dn]"]
    member_group_rendering[of
      "\<lparr>att_key = ''member'', att_value = PInt 5, att_values = PInt 5\<rparr>"
      example_lib default_config "[]"]
    member_group_rendering[of
      "\<lparr>att_key = ''memberOf'', att_value = PInt 5, att_values = PInt 5\<rparr>"
      example_lib default_config "[]"]
    member_group_rendering[of
      "\<lparr>att_key = ''memberOf'', att_value = PUnicode sales_dn, att_values = PList [PUnicode sales_dn]\<rparr>"
      example_lib default_config "[PUnicode sales_dn]"]
  by (simp add: lower_def lower_char_def is_list_def sales_dn_cn formatGroupsGrep_def py_iter_def
      formatString_def show_int_def digit_char_def show_nat.simps)

subsection \<open>Missing attributes in the renderers\<close>

lemmas eval_defs =
  entry_find_def entry_getitem_def entry_getattr_def lower_def lower_char_def
  text_attribute_def int_attribute_def py_text_def py_integer_def text_of_def
  formatAttribute_def formatGrepAttribute_def formatString_def htmlescape_def py_replace_def
  html_cell_def grep_field_def flat_text_field_def grep_line_def generateGrepList_def
  example_lib_def default_config_def newline_def dquote_def

lemma emap_Inr_iff: "emap f xs = Inr ys \<longleftrightarrow> list_all2 (\<lambda>x y. f x = Inr y) xs ys"
proof (induction xs arbitrary: ys)
  case Nil
  then show ?case by auto
next
  case (Cons x xs)
  show ?case
    by (cases ys) (auto simp: ebind_eq_Inr Cons.IH)
qed

lemma emap_total:
  "(\<And>x. x \<in> set xs \<Longrightarrow> \<exists>y. f x = Inr y) \<Longrightarrow> \<exists>ys. emap f xs = Inr ys"
proof (induction xs)
  case Nil
  then show ?case by simp
next
  case (Cons x xs)
  from Cons.prems obtain y where y: "f x = Inr y" by auto
  from Cons obtain ys where "emap f xs = Inr ys" by auto
  with y show ?case by simp
qed

lemma html_cell_missing:
  "entry_find li att = None \<Longrightarrow> html_cell L cfg li att = Inr ''<td>&nbsp;</td>''"
  by (simp add: html_cell_def entry_getitem_def)

lemma grep_field_missing:
  "entry_find entry attr = None \<Longrightarrow> grep_field L entry attr = Inr (PStr [])"
  by (simp add: grep_field_def entry_getitem_def)

lemma html_cell_present:
  "entry_find li att = Some a \<Longrightarrow> formatAttribute L cfg a = Inr s \<Longrightarrow>
   html_cell L cfg li att = Inr (''<td>'' @ s @ ''</td>'')"
  by (simp add: html_cell_def entry_getitem_def)

lemma grep_field_present:
  "entry_find entry attr = Some a \<Longrightarrow> grep_field L entry attr = 
     (case formatGrepAttribute L a of Inl e \<Rightarrow> (if e = LDAPKeyError then Inr (PStr []) else Inl e) | Inr v \<Rightarrow> Inr v)"
  by (simp add: grep_field_def entry_getitem_def)

lemma html_cells_total:
  "(\<And>att. att \<in> set attributes \<Longrightarrow> \<exists>c. html_cell L cfg li att = Inr c) \<Longrightarrow>
   \<exists>cs. html_cells L cfg li attributes = Inr cs"
proof (induction attributes)
  case Nil
  then show ?case by simp
next
  case (Cons att attributes)
  from Cons.prems obtain c where c: "html_cell L cfg li att = Inr c" by auto
  from Cons obtain cs where "html_cells L cfg li attributes = Inr cs" by auto
  with c show ?case by simp
qed

lemma html_rows_total:
  "(\<And>li. li \<in> set listable \<Longrightarrow> \<exists>cs. html_cells L cfg li attributes = Inr cs) \<Longrightarrow>
   \<exists>rs. html_rows L cfg listable attributes = Inr rs"
proof (induction listable)
  case Nil
  then show ?case by simp
next
  case (Cons li listable)
  from Cons.prems obtain cs where c: "html_cells L cfg li attributes = Inr cs" by auto
  from Cons obtain rs where "html_rows L cfg listable attributes = Inr rs" by auto
  with c show ?case by simp
qed

lemma html_cell_ok:
  assumes "\<And>a. entry_find li att = Some a \<Longrightarrow> \<exists>s. formatAttribute L cfg a = Inr s"
  shows "\<exists>c. html_cell L cfg li att = Inr c"
proof (cases "entry_find li att")
  case None
  then show ?thesis by (simp add: html_cell_missing)
next
  case (Some a)
  with assms obtain s where "formatAttribute L cfg a = Inr s" by auto
  with Some show ?thesis by (simp add: html_cell_present)
qed

lemma generateHtmlTable_total:
  assumes "\<And>li att a. li \<in> set listable \<Longrightarrow> att \<in> set attributes \<Longrightarrow>
             entry_find li att = Some a \<Longrightarrow> \<exists>s. formatAttribute L cfg a = Inr s"
  shows "\<exists>out. generateHtmlTable L cfg listable attributes (KStr title) firstTable = Inr out"
proof -
  have "\<exists>rs. html_rows L cfg listable attributes = Inr rs"
    by (intro html_rows_total html_cells_total html_cell_ok assms)
  then obtain rs where rs: "html_rows L cfg listable attributes = Inr rs" ..
  have "\<exists>th. html_thead attributes (KStr title) = Inr th"
    by (simp add: html_thead_def header_text_def)
  then obtain th where th: "html_thead attributes (KStr title) = Inr th" ..
  show ?thesis
    unfolding generateHtmlTable_def by (simp only: rs th ebind_Inr) blast
qed

lemma grep_field_ok:
  assumes "\<And>a. entry_find entry attr = Some a \<Longrightarrow>
             \<exists>v s. formatGrepAttribute L a = Inr v \<and> py_text v = Some s"
  shows "\<exists>s. flat_text_field L entry attr = Inr s"
proof (cases "entry_find entry attr")
  case None
  then show ?thesis
    by (simp add: flat_text_field_def grep_field_missing text_of_def py_text_def)
next
  case (Some a)
  with assms obtain v s where v: "formatGrepAttribute L a = Inr v" "py_text v = Some s" by blast
  have "grep_field L entry attr = Inr v"
    using Some v(1) by (simp add: grep_field_def entry_getitem_def)
  then show ?thesis
    using v(2) by (simp add: flat_text_field_def text_of_def)
qed

lemma emap_emap:
  "(\<exists>ys. emap f xs = Inr ys \<and> emap g ys = Inr zs) \<longleftrightarrow> emap (\<lambda>x. ebind (f x) g) xs = Inr zs"
proof (induction xs arbitrary: zs)
  case Nil
  then show ?case by auto
next
  case (Cons x xs)
  show ?case
  proof
    assume "\<exists>ys. emap f (x # xs) = Inr ys \<and> emap g ys = Inr zs"
    then obtain ys where ys: "emap f (x # xs) = Inr ys" "emap g ys = Inr zs" by blast
    from ys(1) obtain y ys' where y: "f x = Inr y" "emap f xs = Inr ys'" "ys = y # ys'"
      by (auto simp: ebind_eq_Inr)
    from ys(2) y(3) obtain z zs' where z: "g y = Inr z" "emap g ys' = Inr zs'" "zs = z # zs'"
      by (auto simp: ebind_eq_Inr)
    have "emap (\<lambda>x. ebind (f x) g) xs = Inr zs'"
      using Cons.IH[of zs'] y(2) z(2) by blast
    then show "emap (\<lambda>x. ebind (f x) g) (x # xs) = Inr zs"
      using y(1) z(1) z(3) by simp
  next
    assume "emap (\<lambda>x. ebind (f x) g) (x # xs) = Inr zs"
    then obtain z zs' where z: "ebind (f x) g = Inr z" "emap (\<lambda>x. ebind (f x) g) xs = Inr zs'"
      "zs = z # zs'"
      by (auto simp: ebind_eq_Inr)
    from z(1) obtain y where y: "f x = Inr y" "g y = Inr z" by (auto simp: ebind_eq_Inr)
    from z(2) Cons.IH[of zs'] obtain ys' where ys': "emap f xs = Inr ys'" "emap g ys' = Inr zs'"
      by blast
    show "\<exists>ys. emap f (x # xs) = Inr ys \<and> emap g ys = Inr zs"
      using y ys' z(3) by (intro exI[of _ "y # ys'"]) simp
  qed
qed

lemma grep_line_fields:
  "grep_line L cfg entry attributes = Inr l \<longleftrightarrow>
     (\<exists>flds. emap (flat_text_field L entry) attributes = Inr flds
        \<and> l = py_join (grepsplitchar cfg) flds)"
proof -
  have "flat_text_field L entry = (\<lambda>x. ebind (grep_field L entry x) text_of)"
    by (simp add: fun_eq_iff flat_text_field_def)
  then have "(\<exists>eo. emap (grep_field L entry) attributes = Inr eo \<and> emap text_of eo = Inr flds)
      \<longleftrightarrow> emap (flat_text_field L entry) attributes = Inr flds" for flds
    using emap_emap[of "grep_field L entry" attributes text_of flds] by simp
  then show ?thesis
    unfolding grep_line_def ebind_eq_Inr by blast
qed

lemma grep_line_total:
  assumes "\<And>attr a. attr \<in> set attributes \<Longrightarrow> entry_find entry attr = Some a \<Longrightarrow>
             \<exists>v s. formatGrepAttribute L a = Inr v \<and> py_text v = Some s"
  shows "\<exists>l. grep_line L cfg entry attributes = Inr l"
proof -
  have "\<exists>flds. emap (flat_text_field L entry) attributes = Inr flds"
    by (intro emap_total grep_field_ok assms)
  then show ?thesis by (auto simp: grep_line_fields)
qed

lemma generateGrepList_total:
  assumes "\<And>entry attr a. entry \<in> set entrylist \<Longrightarrow> attr \<in> set attributes \<Longrightarrow>
             entry_find entry attr = Some a \<Longrightarrow>
             \<exists>v s. formatGrepAttribute L a = Inr v \<and> py_text v = Some s"
  shows "\<exists>out. generateGrepList L cfg entrylist attributes = Inr out"
proof -
  have "\<exists>ls. emap (\<lambda>entry. grep_line L cfg entry attributes) entrylist = Inr ls"
    by (intro emap_total grep_line_total assms)
  then show ?thesis by (auto simp: generateGrepList_def)
qed

text \<open>
  Claim C4. When an entity lacks a requested column attribute, the markup renderer emits
  the cell with a non-breaking space and the flat-text renderer the empty field, and
  neither raises. Absence never aborts a report: whenever each attribute that is present
  can be formatted, the markup table and the flat text are produced.
\<close>

theorem missing_attribute_placeholder:
  "(entry_find li att = None \<longrightarrow>
      html_cell L cfg li att = Inr ''<td>&nbsp;</td>'' \<and> grep_field L li att = Inr (PStr [])
      \<and> flat_text_field L li att = Inr [])
   \<and> ((\<forall>li \<in> set listable. \<forall>att \<in> set attributes. \<forall>a.
          entry_find li att = Some a \<longrightarrow> (\<exists>s. formatAttribute L cfg a = Inr s))
        \<longrightarrow> (\<exists>out. generateHtmlTable L cfg listable attributes (KStr title) firstTable = Inr out))
   \<and> ((\<forall>li \<in> set listable. \<forall>att \<in> set attributes. \<forall>a.
          entry_find li att = Some a \<longrightarrow>
          (\<exists>v s. formatGrepAttribute L a = Inr v \<and> py_text v = Some s))
        \<longrightarrow> (\<exists>out. generateGrepList L cfg listable attributes = Inr out))"
proof (intro conjI impI)
  assume "entry_find li att = None"
  then show "html_cell L cfg li att = Inr ''<td>&nbsp;</td>''"
    and "grep_field L li att = Inr (PStr [])"
    and "flat_text_field L li att = Inr []"
    by (simp_all add: html_cell_missing grep_field_missing flat_text_field_def text_of_def py_text_def)
next
  assume "\<forall>li \<in> set listable. \<forall>att \<in> set attributes. \<forall>a.
          entry_find li att = Some a \<longrightarrow> (\<exists>s. formatAttribute L cfg a = Inr s)"
  then show "\<exists>out. generateHtmlTable L cfg listable attributes (KStr title) firstTable = Inr out"
    by (intro generateHtmlTable_total) blast
next
  assume "\<forall>li \<in> set listable. \<forall>att \<in> set attributes. \<forall>a.
          entry_find li att = Some a \<longrightarrow>
          (\<exists>v s. formatGrepAttribute L a = Inr v \<and> py_text v = Some s)"
  then show "\<exists>out. generateGrepList L cfg listable attributes = Inr out"
    by (intro generateGrepList_total) blast
qed

theorem missing_attribute_placeholder_witness:
  "html_cell example_lib default_config pc3 ''operatingSystem'' = Inr ''<td>&nbsp;</td>''
   \<and> flat_text_field example_lib pc3 ''operatingSystem'' = Inr []
   \<and> (\<exists>out. generateHtmlTable example_lib default_config [pc1, pc3] [''cn'', ''operatingSystem'']
               (KStr ''Domain computer accounts'') True = Inr out)
   \<and> generateGrepList example_lib default_config [pc1, pc3] [''cn'', ''operatingSystem'']
       = Inr (''cn'' @ [CHR 0x09] @ ''operatingSystem'' @ [CHR 0x0A] @ ''pc1'' @ [CHR 0x09]
              @ ''Windows Server 2016'' @ [CHR 0x0A] @ ''pc3'' @ [CHR 0x09])"
  using missing_attribute_placeholder[of pc3 "''operatingSystem''" example_lib default_config
      "[pc1, pc3]" "[''cn'', ''operatingSystem'']" "''Domain computer accounts''" True]
  by (simp add: eval_defs pc1_def pc3_def)

subsection \<open>The fields of the flat text\<close>

lemma py_split_not_Nil: "py_split sep s \<noteq> []"
  by (induction sep s rule: py_split.induct) (auto split: list.splits)

lemma py_split_nosep: "c \<notin> set s \<Longrightarrow> py_split [c] s = [s]"
  by (induction s) auto

lemma py_split_append:
  "c \<notin> set x \<Longrightarrow> py_split [c] (x @ c # rest) = x # py_split [c] rest"
  by (induction x) auto

lemma py_split_join:
  "xs \<noteq> [] \<Longrightarrow> (\<And>x. x \<in> set xs \<Longrightarrow> c \<notin> set x) \<Longrightarrow> py_split [c] (py_join [c] xs) = xs"
proof (induction "[c]" xs rule: py_join.induct)
  case 1
  then show ?case by simp
next
  case (2 x)
  then show ?case by (simp add: py_split_nosep)
next
  case (3 x y ys)
  then show ?case by (simp add: py_split_append)
qed

lemma length_py_split_join:
  "(\<And>x. x \<in> set xs \<Longrightarrow> c \<notin> set x) \<Longrightarrow>
   length (py_split [c] (py_join [c] xs)) = max 1 (length xs)"
proof (cases "xs = []")
  case True
  then show ?thesis by simp
next
  case False
  assume "\<And>x. x \<in> set xs \<Longrightarrow> c \<notin> set x"
  with False have "py_split [c] (py_join [c] xs) = xs" by (intro py_split_join)
  with False show ?thesis by (cases xs) simp_all
qed

lemma set_py_join: "set (py_join sep xs) \<subseteq> set sep \<union> \<Union>(set ` set xs)"
  by (induction sep xs rule: py_join.induct) auto

lemma emap_length: "emap f xs = Inr ys \<Longrightarrow> length ys = length xs"
  by (simp add: emap_Inr_iff list_all2_lengthD)

lemma list_all2_right_mem:
  "list_all2 P xs ys \<Longrightarrow> y \<in> set ys \<Longrightarrow> \<exists>x \<in> set xs. P x y"
  by (induction rule: list_all2_induct) auto

lemma emap_set:
  "emap f xs = Inr ys \<Longrightarrow> y \<in> set ys \<Longrightarrow> \<exists>x \<in> set xs. f x = Inr y"
  using list_all2_right_mem[of "\<lambda>x y. f x = Inr y" xs ys y] by (simp add: emap_Inr_iff)

lemma generateGrepList_rows:
  assumes "generateGrepList L cfg entrylist attributes = Inr out"
  shows "\<exists>rows. list_all2 (\<lambda>entry r. emap (flat_text_field L entry) attributes = Inr r) entrylist rows
           \<and> out = py_join [newline]
                     (py_join (grepsplitchar cfg) attributes # map (py_join (grepsplitchar cfg)) rows)"
proof -
  from assms obtain ls where ls: "emap (\<lambda>entry. grep_line L cfg entry attributes) entrylist = Inr ls"
    and out: "out = py_join [newline] (py_join (grepsplitchar cfg) attributes # ls)"
    by (auto simp: generateGrepList_def ebind_eq_Inr)
  from ls have "list_all2 (\<lambda>entry l. \<exists>r. emap (flat_text_field L entry) attributes = Inr r
                    \<and> l = py_join (grepsplitchar cfg) r) entrylist ls"
    by (simp add: emap_Inr_iff grep_line_fields)
  then have "\<exists>rows. list_all2 (\<lambda>entry r. emap (flat_text_field L entry) attributes = Inr r) entrylist rows
               \<and> ls = map (py_join (grepsplitchar cfg)) rows"
  proof (induction rule: list_all2_induct)
    case Nil
    then show ?case by simp
  next
    case (Cons entry es l ls')
    then obtain r rows where "emap (flat_text_field L entry) attributes = Inr r"
      "l = py_join (grepsplitchar cfg) r"
      "list_all2 (\<lambda>entry r. emap (flat_text_field L entry) attributes = Inr r) es rows"
      "ls' = map (py_join (grepsplitchar cfg)) rows" by blast
    then show ?case by (intro exI[of _ "r # rows"]) simp
  qed
  with out show ?thesis by blast
qed

text \<open>
  Claim C5, as stated, does not hold: a rendered value can contain the delimiter. With
  the delimiter configured as a comma, the common name \<open>Sales, EMEA\<close> of a group holds
  the delimiter, and the data line splits into three fields where the header has two.
\<close>

theorem flat_text_field_count_counterexample:
  "generateGrepList example_lib (default_config\<lparr>grepsplitchar := '',''\<rparr>) [sales_group]
     [''cn'', ''sAMAccountName'']
     = Inr (''cn,sAMAccountName'' @ [newline] @ ''Sales, EMEA,sales'')
   \<and> py_split [newline] (''cn,sAMAccountName'' @ [newline] @ ''Sales, EMEA,sales'')
     = [''cn,sAMAccountName'', ''Sales, EMEA,sales'']
   \<and> length (py_split '','' ''cn,sAMAccountName'') = 2
   \<and> length (py_split '','' ''Sales, EMEA,sales'') = 3"
  by (simp add: eval_defs sales_group_def emap_Inr_iff)

text \<open>
  Claim C5, amended. Every data line of the flat text is the join, by the delimiter, of
  exactly one field per column attribute, the empty field for an attribute that the
  entity lacks, as the header is the join of the attribute names. When the delimiter is one character, not the newline, and neither it nor the
  newline occurs in an attribute name or in a rendered field, the output has one line
  per entity after the header and every line, split on the delimiter, has the field
  count of the header, also where entities lack attributes.
\<close>

theorem flat_text_field_count:
  assumes out: "generateGrepList L cfg entrylist attributes = Inr out"
  shows "(\<exists>rows. list_all2 (\<lambda>entry r. emap (flat_text_field L entry) attributes = Inr r) entrylist rows
            \<and> (\<forall>r \<in> set rows. length r = length attributes)
            \<and> out = py_join [newline]
                     (py_join (grepsplitchar cfg) attributes # map (py_join (grepsplitchar cfg)) rows))
       \<and> (\<forall>entry attr. entry_find entry attr = None \<longrightarrow> flat_text_field L entry attr = Inr [])
       \<and> (grepsplitchar cfg = [d] \<and> d \<noteq> newline
          \<and> (\<forall>a \<in> set attributes. d \<notin> set a \<and> newline \<notin> set a)
          \<and> (\<forall>entry \<in> set entrylist. \<forall>attr \<in> set attributes. \<forall>s.
                flat_text_field L entry attr = Inr s \<longrightarrow> d \<notin> set s \<and> newline \<notin> set s)
          \<longrightarrow> length (py_split [newline] out) = Suc (length entrylist)
              \<and> (\<forall>l \<in> set (py_split [newline] out).
                    length (py_split [d] l) = length (py_split [d] (hd (py_split [newline] out)))))"
proof -
  from generateGrepList_rows[OF out] obtain rows where
    rows: "list_all2 (\<lambda>entry r. emap (flat_text_field L entry) attributes = Inr r) entrylist rows"
    and o: "out = py_join [newline]
                     (py_join (grepsplitchar cfg) attributes # map (py_join (grepsplitchar cfg)) rows)"
    by blast
  have len: "length r = length attributes" if "r \<in> set rows" for r
  proof -
    from list_all2_right_mem[OF rows that]
    obtain entry where "emap (flat_text_field L entry) attributes = Inr r" by blast
    then show ?thesis by (rule emap_length)
  qed
  have part1: "\<exists>rows. list_all2 (\<lambda>entry r. emap (flat_text_field L entry) attributes = Inr r) entrylist rows
            \<and> (\<forall>r \<in> set rows. length r = length attributes)
            \<and> out = py_join [newline]
                     (py_join (grepsplitchar cfg) attributes # map (py_join (grepsplitchar cfg)) rows)"
    using rows o len by blast
  have part2: "length (py_split [newline] out) = Suc (length entrylist)
              \<and> (\<forall>l \<in> set (py_split [newline] out).
                    length (py_split [d] l) = length (py_split [d] (hd (py_split [newline] out))))"
    if d: "grepsplitchar cfg = [d]" "d \<noteq> newline"
      and names: "\<forall>a \<in> set attributes. d \<notin> set a \<and> newline \<notin> set a"
      and flds: "\<forall>entry \<in> set entrylist. \<forall>attr \<in> set attributes. \<forall>s.
                flat_text_field L entry attr = Inr s \<longrightarrow> d \<notin> set s \<and> newline \<notin> set s"
  proof -
    have clean: "d \<notin> set s \<and> newline \<notin> set s" if "r \<in> set rows" "s \<in> set r" for r s
    proof -
      from list_all2_right_mem[OF rows that(1)] obtain entry where e: "entry \<in> set entrylist"
        "emap (flat_text_field L entry) attributes = Inr r" by blast
      from emap_set[OF e(2) that(2)] obtain attr where "attr \<in> set attributes"
        "flat_text_field L entry attr = Inr s" by blast
      with flds e(1) show ?thesis by blast
    qed
    let ?hdr = "py_join [d] attributes"
    let ?lines = "?hdr # map (py_join [d]) rows"
    have nl: "newline \<notin> set l" if "l \<in> set ?lines" for l
    proof -
      from that consider "l = ?hdr" | r where "r \<in> set rows" "l = py_join [d] r" by auto
      then show ?thesis
      proof cases
        case 1
        then show ?thesis using set_py_join[of "[d]" attributes] names d(2) by auto
      next
        case 2
        then show ?thesis using set_py_join[of "[d]" r] clean[OF 2(1)] d(2) by auto
      qed
    qed
    have split: "py_split [newline] out = ?lines"
      unfolding o d(1) using nl by (intro py_split_join) auto
    have cnt: "length (py_split [d] l) = max 1 (length attributes)" if "l \<in> set ?lines" for l
    proof -
      from that consider "l = ?hdr" | r where "r \<in> set rows" "l = py_join [d] r" by auto
      then show ?thesis
      proof cases
        case 1
        then show ?thesis using names by (simp add: length_py_split_join)
      next
        case 2
        have "length (py_split [d] (py_join [d] r)) = max 1 (length r)"
          using clean[OF 2(1)] by (intro length_py_split_join) blast
        then show ?thesis using 2 len by simp
      qed
    qed
    have "length rows = length entrylist" using rows by (simp add: list_all2_lengthD)
    then show ?thesis using split cnt by simp
  qed
  have part0: "\<forall>entry attr. entry_find entry attr = None \<longrightarrow> flat_text_field L entry attr = Inr []"
    by (simp add: flat_text_field_def grep_field_missing text_of_def py_text_def)
  show ?thesis using part1 part0 part2 by blast
qed

theorem flat_text_field_count_witness:
  "generateGrepList example_lib default_config [pc1, pc3] [''cn'', ''operatingSystem'']
     = Inr (''cn'' @ [CHR 0x09] @ ''operatingSystem'' @ [CHR 0x0A] @ ''pc1'' @ [CHR 0x09]
              @ ''Windows Server 2016'' @ [CHR 0x0A] @ ''pc3'' @ [CHR 0x09])
   \<and> length (py_split [newline] (''cn'' @ [CHR 0x09] @ ''operatingSystem'' @ [CHR 0x0A] @ ''pc1'' @ [CHR 0x09]
              @ ''Windows Server 2016'' @ [CHR 0x0A] @ ''pc3'' @ [CHR 0x09])) = 3
   \<and> length (py_split [CHR 0x09] (''pc3'' @ [CHR 0x09])) = length (py_split [CHR 0x09] (''cn'' @ [CHR 0x09] @ ''operatingSystem''))"
proof -
  have ev: "generateGrepList example_lib default_config [pc1, pc3] [''cn'', ''operatingSystem'']
     = Inr (''cn'' @ [CHR 0x09] @ ''operatingSystem'' @ [CHR 0x0A] @ ''pc1'' @ [CHR 0x09]
              @ ''Windows Server 2016'' @ [CHR 0x0A] @ ''pc3'' @ [CHR 0x09])"
    by (simp add: eval_defs pc1_def pc3_def)
  have flds: "\<forall>entry \<in> set [pc1, pc3]. \<forall>attr \<in> set [''cn'', ''operatingSystem'']. \<forall>s.
                flat_text_field example_lib entry attr = Inr s \<longrightarrow> CHR 0x09 \<notin> set s \<and> newline \<notin> set s"
    by (auto simp add: eval_defs pc1_def pc3_def)
  show ?thesis
    using flat_text_field_count[OF ev, of "CHR 0x09"] flds ev
    by (simp add: default_config_def newline_def)
qed

subsection \<open>Grouping computers by operating system\<close>

lemma sortComputersByOS_loop_result:
  assumes "\<And>c. c \<in> set items \<Longrightarrow> \<exists>k. os_key c = Inr k"
  shows "sortComputersByOS_loop items osdict
     = Inr (\<lambda>k. if computers_with_key k items = [] then osdict k
                 else Some ((case osdict k of None \<Rightarrow> [] | Some members \<Rightarrow> members)
                            @ computers_with_key k items))"
  using assms
proof (induction items arbitrary: osdict)
  case Nil
  then show ?case by (simp add: computers_with_key_def)
next
  case (Cons c items)
  from Cons.prems obtain k where k: "os_key c = Inr k" by auto
  have rest: "\<And>c. c \<in> set items \<Longrightarrow> \<exists>k. os_key c = Inr k" using Cons.prems by auto
  show ?case
    using k
    by (simp add: Cons.IH[OF rest] os_key_def[symmetric] computers_with_key_def fun_eq_iff
        split: option.splits)
qed

lemma os_key_pc1: "os_key pc1 = Inr (KStr ''Windows Server 2016'')"
  by (simp add: os_key_def computer_os_def eval_defs pc1_def py_hashkey_def)
lemma os_key_pc2: "os_key pc2 = Inr (KStr ''Windows Server 2016'')"
  by (simp add: os_key_def computer_os_def eval_defs pc2_def py_hashkey_def)
lemma os_key_pc3: "os_key pc3 = Inr (KStr ''Unknown'')"
  by (simp add: os_key_def computer_os_def eval_defs pc3_def py_hashkey_def)

lemma pcs_distinct: "pc1 \<noteq> pc2" "pc1 \<noteq> pc3" "pc2 \<noteq> pc3"
  by (simp_all add: pc1_def pc2_def pc3_def)

text \<open>
  Claim C6, as stated, does not hold in its last part. The grouping is a dictionary of
  Python 2, a map without an order of keys: two inputs in which the keys first occur in
  different orders give the same dictionary, so the order of its keys cannot be the
  order of first occurrence for both.
\<close>

theorem computers_key_order_counterexample:
  "sortComputersByOS [pc3, pc1] = sortComputersByOS [pc1, pc3]
   \<and> first_occurrence_keys [pc3, pc1] = Inr [KStr ''Unknown'', KStr ''Windows Server 2016'']
   \<and> first_occurrence_keys [pc1, pc3] = Inr [KStr ''Windows Server 2016'', KStr ''Unknown'']"
proof -
  have a: "sortComputersByOS [pc3, pc1]
      = Inr [KStr ''Unknown'' \<mapsto> [pc3], KStr ''Windows Server 2016'' \<mapsto> [pc1]]"
    using os_key_pc1 os_key_pc3
    by (simp add: sortComputersByOS_def os_key_def)
  have b: "sortComputersByOS [pc1, pc3]
      = Inr [KStr ''Windows Server 2016'' \<mapsto> [pc1], KStr ''Unknown'' \<mapsto> [pc3]]"
    using os_key_pc1 os_key_pc3
    by (simp add: sortComputersByOS_def os_key_def)
  have c: "[KStr ''Unknown'' \<mapsto> [pc3], KStr ''Windows Server 2016'' \<mapsto> [pc1]]
         = [KStr ''Windows Server 2016'' \<mapsto> [pc1], KStr ''Unknown'' \<mapsto> [pc3]]"
    by (rule ext) simp
  show ?thesis
    using os_key_pc1 os_key_pc3
    by (simp add: a b c first_occurrence_keys_def os_key_def)
qed

text \<open>
  Claim C6, amended. For every list of computers whose \<open>operatingSystem\<close> value, where
  present, is hashable, the grouping returns a dictionary that maps each key to the
  computers classified under it, in the order of the input, and has no other key; the
  key of a computer is its \<open>operatingSystem\<close> value when the attribute is present and
  \<open>Unknown\<close> when it is absent.
\<close>

theorem computers_grouped_by_os:
  assumes "\<forall>c \<in> set items. \<exists>k. os_key c = Inr k"
  shows "(\<exists>osdict. sortComputersByOS items = Inr osdict
           \<and> (\<forall>k. osdict k = (if computers_with_key k items = [] then None
                               else Some (computers_with_key k items))))
       \<and> (\<forall>c \<in> set items. \<forall>a. entry_find c ''operatingSystem'' = Some a \<longrightarrow>
              os_key c = py_hashkey (att_value a))
       \<and> (\<forall>c \<in> set items. entry_find c ''operatingSystem'' = None \<longrightarrow>
              os_key c = Inr (KStr ''Unknown''))"
proof -
  have "sortComputersByOS items
          = Inr (\<lambda>k. if computers_with_key k items = [] then None
                      else Some (computers_with_key k items))"
    unfolding sortComputersByOS_def
    using assms by (subst sortComputersByOS_loop_result) auto
  then show ?thesis
    by (simp add: os_key_def computer_os_def entry_getattr_def py_hashkey_def)
qed

theorem computers_grouped_by_os_witness:
  "sortComputersByOS [pc1, pc2, pc3]
     = Inr [KStr ''Windows Server 2016'' \<mapsto> [pc1, pc2], KStr ''Unknown'' \<mapsto> [pc3]]"
proof -
  have h: "\<forall>c \<in> set [pc1, pc2, pc3]. \<exists>k. os_key c = Inr k"
    by (simp add: os_key_pc1 os_key_pc2 os_key_pc3)
  from computers_grouped_by_os[OF h] obtain osdict where
    o: "sortComputersByOS [pc1, pc2, pc3] = Inr osdict"
    and k: "\<And>k. osdict k = (if computers_with_key k [pc1, pc2, pc3] = [] then None
                               else Some (computers_with_key k [pc1, pc2, pc3]))"
    by blast
  have "osdict = [KStr ''Windows Server 2016'' \<mapsto> [pc1, pc2], KStr ''Unknown'' \<mapsto> [pc3]]"
    by (rule ext) (simp add: k computers_with_key_def os_key_pc1 os_key_pc2 os_key_pc3)
  with o show ?thesis by simp
qed

subsection \<open>Grouping users by membership\<close>




















lemma gid_broken: "group_gid broken_group = Inl ValueError"
  by (simp add: group_gid_def broken_group_def eval_defs py_int_def py_strip_def
      py_space_def digits_val_def digit_val_def)













end
